theory Spec2Isabelle
  imports Complex_Main
begin

section \<open>Python values\<close>

text \<open>
  The program is one Python class, \<^verbatim>\<open>CryptoTrader\<close> in \<^verbatim>\<open>CryptoV1.py\<close>. Everything
  it handles is a value decoded from JSON (or YAML): \<^verbatim>\<open>None\<close>, booleans, integers,
  floats, strings, lists and dictionaries with string keys. A dictionary is the list of
  its items in insertion order; a lookup takes the first item with the key.

  A float is its numeric value together with its \<^verbatim>\<open>repr\<close>: the program only compares
  floats, tests them for zero and prints them, and the printed form of a double is data
  here rather than an algorithm.
\<close>

datatype fval = FNum rat | FNaN | FPosInf | FNegInf

datatype pyval =
    PNone
  | PBool bool
  | PInt int
  | PFloat fval string
  | PStr string
  | PList "pyval list"
  | PDict "(string \<times> pyval) list"

text \<open>
  Exceptions. \<^verbatim>\<open>str(e)\<close> of a \<^verbatim>\<open>KeyError\<close> is the \<^verbatim>\<open>repr\<close> of the key; of the
  others it is the message. \<open>Raised cls msg\<close> is an exception of a library the program
  calls (requests, json, decimal), with its class name and its message.
\<close>

datatype exn =
    KeyError string
  | TypeError string
  | AttributeError string
  | Raised string string

definition quote :: "string \<Rightarrow> string" where
  "quote k = [CHR 0x27] @ k @ [CHR 0x27]"

fun str_exn :: "exn \<Rightarrow> string" where
  "str_exn (KeyError k) = quote k"
| "str_exn (TypeError m) = m"
| "str_exn (AttributeError m) = m"
| "str_exn (Raised c m) = m"

fun type_name :: "pyval \<Rightarrow> string" where
  "type_name PNone = ''NoneType''"
| "type_name (PBool b) = ''bool''"
| "type_name (PInt i) = ''int''"
| "type_name (PFloat v r) = ''float''"
| "type_name (PStr s) = ''str''"
| "type_name (PList xs) = ''list''"
| "type_name (PDict kvs) = ''dict''"

text \<open>Truth value testing: what \<^verbatim>\<open>not v\<close> negates.\<close>

fun truthy :: "pyval \<Rightarrow> bool" where
  "truthy PNone = False"
| "truthy (PBool b) = b"
| "truthy (PInt i) = (i \<noteq> 0)"
| "truthy (PFloat v r) = (v \<noteq> FNum 0)"
| "truthy (PStr s) = (s \<noteq> [])"
| "truthy (PList xs) = (xs \<noteq> [])"
| "truthy (PDict kvs) = (kvs \<noteq> [])"

text \<open>\<^verbatim>\<open>v[k]\<close> for a string key \<open>k\<close>.\<close>

fun getitem :: "pyval \<Rightarrow> string \<Rightarrow> exn + pyval" where
  "getitem (PDict kvs) k = (case map_of kvs k of Some v \<Rightarrow> Inr v | None \<Rightarrow> Inl (KeyError k))"
| "getitem (PStr s) k = Inl (TypeError (''string indices must be integers, not '' @ quote ''str''))"
| "getitem (PList xs) k = Inl (TypeError ''list indices must be integers or slices, not str'')"
| "getitem v k = Inl (TypeError (quote (type_name v) @ '' object is not subscriptable''))"

text \<open>\<^verbatim>\<open>v.get(k, default)\<close>: a method of dictionaries only.\<close>

fun get_default :: "pyval \<Rightarrow> string \<Rightarrow> pyval \<Rightarrow> exn + pyval" where
  "get_default (PDict kvs) k d = (case map_of kvs k of Some v \<Rightarrow> Inr v | None \<Rightarrow> Inr d)"
| "get_default v k d =
     Inl (AttributeError (quote (type_name v) @ '' object has no attribute '' @ quote ''get''))"

text \<open>
  \<^verbatim>\<open>v.lower()\<close>: a method of strings only. Strings are byte strings (UTF-8). On a
  string of ASCII bytes the letters A to Z are mapped to a to z and every other byte is
  kept. On any other string the result is what Python's Unicode tables say, which is a
  parameter here (\<open>unicode_lower\<close>): no result below depends on it.
\<close>

definition lower_char :: "char \<Rightarrow> char" where
  "lower_char c =
     (case map_of (zip ''ABCDEFGHIJKLMNOPQRSTUVWXYZ'' ''abcdefghijklmnopqrstuvwxyz'') c of
        Some l \<Rightarrow> l
      | None \<Rightarrow> c)"

definition ascii :: "string \<Rightarrow> bool" where
  "ascii s = list_all (\<lambda>c. of_char c < (128::nat)) s"

fun lower :: "(string \<Rightarrow> string) \<Rightarrow> pyval \<Rightarrow> exn + string" where
  "lower unicode_lower (PStr s) = Inr (if ascii s then map lower_char s else unicode_lower s)"
| "lower unicode_lower v =
     Inl (AttributeError (quote (type_name v) @ '' object has no attribute '' @ quote ''lower''))"

text \<open>
  The numeric value of a number (\<^verbatim>\<open>bool\<close> is a subclass of \<^verbatim>\<open>int\<close>); Python compares
  numbers of different types by their exact values, and every comparison with NaN is
  false.
\<close>

fun num_of :: "pyval \<Rightarrow> fval option" where
  "num_of (PBool b) = Some (FNum (if b then 1 else 0))"
| "num_of (PInt i) = Some (FNum (of_int i))"
| "num_of (PFloat v r) = Some v"
| "num_of v = None"

fun fval_less :: "fval \<Rightarrow> fval \<Rightarrow> bool" where
  "fval_less FNaN y = False"
| "fval_less x FNaN = False"
| "fval_less (FNum a) (FNum b) = (a < b)"
| "fval_less (FNum a) FPosInf = True"
| "fval_less (FNum a) FNegInf = False"
| "fval_less FPosInf y = False"
| "fval_less FNegInf FNegInf = False"
| "fval_less FNegInf y = True"

text \<open>
  \<^verbatim>\<open>v < m\<close> where \<open>m\<close> is a number: a \<^verbatim>\<open>TypeError\<close> unless \<open>v\<close> is a number too. Its
  message names both types in Python; the program never reads it (the one comparison
  stands in a \<^verbatim>\<open>try\<close> whose handler ignores the exception), so here it names the left one.
\<close>

definition less_num :: "pyval \<Rightarrow> fval \<Rightarrow> exn + bool" where
  "less_num v m =
     (case num_of v of
        Some x \<Rightarrow> Inr (fval_less x m)
      | None \<Rightarrow> Inl (TypeError (''unsupported operand for <: '' @ type_name v)))"

subsection \<open>Printing integers\<close>

fun digits :: "nat \<Rightarrow> string" where
  "digits n = (if n < 10 then [''0123456789'' ! n]
               else digits (n div 10) @ [''0123456789'' ! (n mod 10)])"

declare digits.simps [simp del]

definition str_int :: "int \<Rightarrow> string" where
  "str_int i = (if i < 0 then ''-'' @ digits (nat (- i)) else digits (nat i))"

section \<open>Decimal arithmetic\<close>

text \<open>
  \<^verbatim>\<open>decimal.Decimal\<close>: a finite number is a sign (\<open>True\<close> for minus), a coefficient and
  an exponent, standing for \<open>\<plusminus> coefficient * 10 ^ exponent\<close>; the other values are the
  infinities and the NaNs (sign, signalling, payload digits).

  The module sets \<^verbatim>\<open>getcontext().prec = 18\<close> and leaves the rest of the context at its
  defaults: rounding half to even, \<^verbatim>\<open>Emax = 999999\<close>, \<^verbatim>\<open>Emin = -999999\<close>, no clamping,
  and the traps \<^verbatim>\<open>InvalidOperation\<close>, \<^verbatim>\<open>DivisionByZero\<close> and \<^verbatim>\<open>Overflow\<close>, which raise.
\<close>

datatype decimal = Dec bool nat int | DInf bool | DNaN bool bool string

definition prec :: nat where "prec = 18"
definition Emax :: int where "Emax = 999999"
definition Emin :: int where "Emin = - 999999"
definition Etiny :: int where "Etiny = Emin - int prec + 1"
definition Etop :: int where "Etop = Emax - int prec + 1"

definition invalid_operation :: exn where
  "invalid_operation =
     Raised ''InvalidOperation'' (''[<class '' @ quote ''decimal.InvalidOperation'' @ ''>]'')"

definition overflow :: exn where
  "overflow = Raised ''Overflow'' (''[<class '' @ quote ''decimal.Overflow'' @ ''>]'')"

text \<open>
  Rounding a result to the context (\<^verbatim>\<open>Decimal._fix\<close>). A zero only has its exponent
  brought into range. A coefficient of more than \<open>prec\<close> digits (or one below the
  smallest exponent) loses its last \<open>k\<close> digits, rounded half to even; a carry into a
  digit too many drops one more zero.
\<close>

definition round_half_even :: "nat \<Rightarrow> nat \<Rightarrow> nat" where
  "round_half_even c k =
     (let q = c div 10 ^ k; r = c mod 10 ^ k
      in if 10 ^ k < 2 * r \<or> (2 * r = 10 ^ k \<and> odd q) then q + 1 else q)"

definition fix_dec :: "bool \<Rightarrow> nat \<Rightarrow> int \<Rightarrow> exn + decimal" where
  "fix_dec s c e =
     (if c = 0 then Inr (Dec s 0 (min (max e Etiny) Emax))
      else
        let exp_min = int (length (digits c)) + e - int prec in
        if exp_min > Etop then Inl overflow
        else
          let exp_min = max exp_min Etiny in
          if e < exp_min then
            let coeff = round_half_even c (nat (exp_min - e)) in
            if length (digits coeff) > prec then
              (if exp_min + 1 > Etop then Inl overflow
               else Inr (Dec s (coeff div 10) (exp_min + 1)))
            else Inr (Dec s coeff exp_min)
          else Inr (Dec s c e))"

definition fix_nan :: "string \<Rightarrow> string" where
  "fix_nan p =
     (if length p > prec then dropWhile (\<lambda>c. c = CHR ''0'') (drop (length p - prec) p) else p)"

text \<open>\<^verbatim>\<open>x * y\<close> (\<^verbatim>\<open>Decimal.__mul__\<close>), NaNs first, then infinities, then the product.\<close>

fun mul :: "decimal \<Rightarrow> decimal \<Rightarrow> exn + decimal" where
  "mul (DNaN s True p) y = Inl invalid_operation"
| "mul x (DNaN s True p) = Inl invalid_operation"
| "mul (DNaN s False p) y = Inr (DNaN s False (fix_nan p))"
| "mul x (DNaN s False p) = Inr (DNaN s False (fix_nan p))"
| "mul (DInf s) (Dec t c e) = (if c = 0 then Inl invalid_operation else Inr (DInf (s \<noteq> t)))"
| "mul (DInf s) (DInf t) = Inr (DInf (s \<noteq> t))"
| "mul (Dec s c e) (DInf t) = (if c = 0 then Inl invalid_operation else Inr (DInf (s \<noteq> t)))"
| "mul (Dec s c e) (Dec t d f) = fix_dec (s \<noteq> t) (c * d) (e + f)"

text \<open>\<^verbatim>\<open>str(x)\<close> (\<^verbatim>\<open>Decimal.__str__\<close>): scientific notation when the exponent asks for it.\<close>

definition sign_str :: "bool \<Rightarrow> string" where
  "sign_str s = (if s then ''-'' else [])"

fun str_decimal :: "decimal \<Rightarrow> string" where
  "str_decimal (DInf s) = sign_str s @ ''Infinity''"
| "str_decimal (DNaN s sig p) = sign_str s @ (if sig then ''sNaN'' else ''NaN'') @ p"
| "str_decimal (Dec s c e) =
     (let ds = digits c;
          leftdigits = e + int (length ds);
          dotplace = (if e \<le> 0 \<and> leftdigits > - 6 then leftdigits else 1);
          intpart = (if dotplace \<le> 0 then ''0''
                     else if dotplace \<ge> int (length ds)
                       then ds @ replicate (nat (dotplace - int (length ds))) (CHR ''0'')
                     else take (nat dotplace) ds);
          fracpart = (if dotplace \<le> 0 then ''.'' @ replicate (nat (- dotplace)) (CHR ''0'') @ ds
                      else if dotplace \<ge> int (length ds) then []
                      else ''.'' @ drop (nat dotplace) ds);
          ex = (if leftdigits = dotplace then []
                else ''E'' @ (if leftdigits - dotplace < 0 then ''-'' else ''+'')
                         @ digits (nat \<bar>leftdigits - dotplace\<bar>))
      in sign_str s @ intpart @ fracpart @ ex)"

text \<open>The number a finite decimal stands for.\<close>

fun dec_val :: "decimal \<Rightarrow> rat" where
  "dec_val (Dec s c e) = (if s then - 1 else 1) * of_nat c * 10 powi e"
| "dec_val d = 0"

fun finite_dec :: "decimal \<Rightarrow> bool" where
  "finite_dec (Dec s c e) = True"
| "finite_dec d = False"

text \<open>
  \<^verbatim>\<open>Decimal(0)\<close>, and \<^verbatim>\<open>Decimal(i)\<close> for any integer or boolean \<open>i\<close>, is the integer
  itself with exponent zero.
\<close>

definition decimal_of_int :: "int \<Rightarrow> decimal" where
  "decimal_of_int i = Dec (i < 0) (nat \<bar>i\<bar>) 0"

section \<open>The outside world\<close>

text \<open>
  The program talks to three services through one \<^verbatim>\<open>requests.Session\<close>. A request is
  an HTTP GET or POST with its URL, headers, JSON body and timeout in seconds. What a
  request meets is a parameter of every definition below: either the call raises (a
  connection error, a timeout) or it returns a response, of which the program reads
  the status code, the text and the decoded JSON body (\<^verbatim>\<open>response.json()\<close> raises on
  a body that is not JSON). No status code is an error of its own: \<^verbatim>\<open>session.get\<close> and
  \<^verbatim>\<open>session.post\<close> return the response whatever its status.

  Three pieces of the standard library are parameters too, because the results below
  do not depend on what they compute: the \<^verbatim>\<open>Decimal\<close> constructor on anything but an
  integer (strings, floats, sequences, \<^verbatim>\<open>None\<close>: its grammar and its errors), the
  printed form of a list or dictionary, and \<^verbatim>\<open>str.lower\<close> on a string that is not
  ASCII.

  The state threaded through the program is the list of requests sent so far, oldest
  first. A computation takes that list and returns a value or a raised exception,
  with the extended list.
\<close>

record response =
  status_code :: int
  body_text :: string
  body_json :: "exn + pyval"

datatype request =
    Get string "(string \<times> string) list" nat
  | Post string "(string \<times> string) list" pyval nat

record env =
  http :: "request \<Rightarrow> exn + response"
  decimal_from :: "pyval \<Rightarrow> exn + decimal"
  str_container :: "pyval \<Rightarrow> string"
  str_lower :: "string \<Rightarrow> string"

type_synonym 'a io = "request list \<Rightarrow> (exn + 'a) \<times> request list"

definition ret :: "'a \<Rightarrow> 'a io" where
  "ret x = (\<lambda>s. (Inr x, s))"

definition lift :: "exn + 'a \<Rightarrow> 'a io" where
  "lift r = (\<lambda>s. (r, s))"

definition bind :: "'a io \<Rightarrow> ('a \<Rightarrow> 'b io) \<Rightarrow> 'b io" where
  "bind m f = (\<lambda>s. case m s of (Inl e, s') \<Rightarrow> (Inl e, s') | (Inr x, s') \<Rightarrow> f x s')"

text \<open>\<^verbatim>\<open>try: m except Exception as e: h(e)\<close>.\<close>

definition catch :: "'a io \<Rightarrow> (exn \<Rightarrow> 'a io) \<Rightarrow> 'a io" where
  "catch m h = (\<lambda>s. case m s of (Inl e, s') \<Rightarrow> h e s' | (Inr x, s') \<Rightarrow> (Inr x, s'))"

definition send :: "env \<Rightarrow> request \<Rightarrow> response io" where
  "send w r = (\<lambda>s. (http w r, s @ [r]))"

text \<open>\<^verbatim>\<open>Decimal(v)\<close>.\<close>

fun Decimal :: "env \<Rightarrow> pyval \<Rightarrow> exn + decimal" where
  "Decimal w (PInt i) = Inr (decimal_of_int i)"
| "Decimal w (PBool b) = Inr (decimal_of_int (if b then 1 else 0))"
| "Decimal w v = decimal_from w v"

text \<open>A value interpolated in an f-string: \<^verbatim>\<open>f"{v}"\<close>.\<close>

fun format_val :: "env \<Rightarrow> pyval \<Rightarrow> string" where
  "format_val w PNone = ''None''"
| "format_val w (PBool b) = (if b then ''True'' else ''False'')"
| "format_val w (PInt i) = str_int i"
| "format_val w (PFloat v r) = r"
| "format_val w (PStr s) = s"
| "format_val w v = str_container w v"

section \<open>The trader\<close>

text \<open>
  The methods of \<^verbatim>\<open>CryptoTrader\<close>, under their names without the leading underscore.
  The calls to \<^verbatim>\<open>logging\<close> print and change nothing else, so they are left out; the one
  log message that evaluates \<^verbatim>\<open>response.json()\<close>, and can therefore raise, is kept as
  that evaluation. \<^verbatim>\<open>except Exception\<close> catches every exception there is here.

  \<^verbatim>\<open>self.config\<close>, as the program reads it: the two blacklists, the audit service and
  its threshold (a number: only its value matters to \<^verbatim>\<open><\<close>), the venue and its key,
  and the four trading parameters, which go into the order as they are.
\<close>

record config =
  blacklist_tokens :: "string list"
  blacklist_developers :: "string list"
  rugcheck_endpoint :: string
  rugcheck_min_score :: fval
  gmgn_endpoint :: string
  gmgn_api_key :: string
  position_size_pct :: pyval
  leverage :: pyval
  stop_loss_pct :: pyval
  take_profit_pct :: pyval

text \<open>The dictionaries the program returns.\<close>

definition error_result :: "string \<Rightarrow> pyval" where
  "error_result m = PDict [(''status'', PStr ''error''), (''message'', PStr m)]"

definition success_result :: "pyval \<Rightarrow> pyval" where
  "success_result order = PDict [(''status'', PStr ''success''), (''order'', order)]"

definition failed :: "string \<Rightarrow> pyval" where
  "failed reason = PDict [(''passed'', PBool False), (''reason'', PStr reason)]"

definition passed :: pyval where
  "passed = PDict [(''passed'', PBool True)]"

definition approved :: pyval where
  "approved = PDict [(''approved'', PBool True), (''message'', PStr ''Security checks passed'')]"

subsection \<open>The four requests\<close>

definition pair_request :: "string \<Rightarrow> request" where
  "pair_request pair_address =
     Get (''https://api.dexscreener.com/latest/dex/pairs/'' @ pair_address) [] 10"

definition audit_request :: "config \<Rightarrow> env \<Rightarrow> pyval \<Rightarrow> request" where
  "audit_request cfg w address =
     Get (rugcheck_endpoint cfg @ ''/audit/'' @ format_val w address) [] 10"

definition balance_request :: "config \<Rightarrow> request" where
  "balance_request cfg =
     Get (gmgn_endpoint cfg @ ''/account/balance'') [(''X-API-KEY'', gmgn_api_key cfg)] 5"

definition order_request :: "config \<Rightarrow> pyval \<Rightarrow> request" where
  "order_request cfg order =
     Post (gmgn_endpoint cfg @ ''/orders'') [(''X-API-KEY'', gmgn_api_key cfg)] order 10"

fun is_post :: "request \<Rightarrow> bool" where
  "is_post (Post url headers body timeout) = True"
| "is_post (Get url headers timeout) = False"

subsection \<open>Utility methods\<close>

definition get_dexscreener_data :: "env \<Rightarrow> string \<Rightarrow> pyval io" where
  "get_dexscreener_data w pair_address =
     catch
       (bind (send w (pair_request pair_address))
          (\<lambda>response. lift (body_json response)))
       (\<lambda>e. ret PNone)"

definition get_gmgn_balance :: "config \<Rightarrow> env \<Rightarrow> decimal io" where
  "get_gmgn_balance cfg w =
     catch
       (bind (send w (balance_request cfg))
          (\<lambda>response. bind (lift (body_json response))
          (\<lambda>body. bind (lift (getitem body ''available''))
          (\<lambda>available. lift (Decimal w available)))))
       (\<lambda>e. lift (Decimal w (PInt 0)))"

subsection \<open>Security checks\<close>

definition check_blacklists :: "config \<Rightarrow> env \<Rightarrow> pyval \<Rightarrow> pyval io" where
  "check_blacklists cfg w data =
     bind (lift (getitem data ''pairAddress''))
     (\<lambda>pair. bind (lift (lower (str_lower w) pair))
     (\<lambda>pair_addr. bind (lift (get_default data ''creator'' (PStr [])))
     (\<lambda>creator. bind (lift (lower (str_lower w) creator))
     (\<lambda>creator_addr.
        if pair_addr \<in> set (blacklist_tokens cfg) then ret (failed ''Token blacklisted'')
        else if creator_addr \<in> set (blacklist_developers cfg)
          then ret (failed ''Developer blacklisted'')
        else ret passed))))"

definition check_rug_pull_risk :: "config \<Rightarrow> env \<Rightarrow> pyval \<Rightarrow> pyval io" where
  "check_rug_pull_risk cfg w data =
     catch
       (bind (lift (getitem data ''baseToken''))
        (\<lambda>base. bind (lift (getitem base ''address''))
        (\<lambda>address. bind (send w (audit_request cfg w address))
        (\<lambda>response. bind (lift (body_json response))
        (\<lambda>audit. bind (lift (get_default audit ''auditStatus'' PNone))
        (\<lambda>status.
           if status \<noteq> PStr ''GOOD'' then ret (failed ''Failed security audit'')
           else bind (lift (get_default audit ''auditScore'' (PInt 0)))
             (\<lambda>score. bind (lift (less_num score (rugcheck_min_score cfg)))
             (\<lambda>low.
                if low then bind (lift (getitem audit ''auditScore''))
                  (\<lambda>shown. ret (failed (''Low audit score: '' @ format_val w shown)))
                else ret passed))))))))
       (\<lambda>e. ret (failed ''Audit verification error''))"

text \<open>The three remaining checks have the body \<^verbatim>\<open>...\<close>: they return \<^verbatim>\<open>None\<close>.\<close>

definition check_liquidity :: "pyval \<Rightarrow> pyval io" where
  "check_liquidity data = ret PNone"

definition validate_volume :: "pyval \<Rightarrow> pyval io" where
  "validate_volume data = ret PNone"

definition analyze_holders :: "pyval \<Rightarrow> pyval io" where
  "analyze_holders data = ret PNone"

subsection \<open>The analysis engine\<close>

text \<open>
  \<^verbatim>\<open>for check in checks: result = check(data); if not result["passed"]: return result\<close>,
  and the approval after the loop.
\<close>

fun run_checks :: "(pyval \<Rightarrow> pyval io) list \<Rightarrow> pyval \<Rightarrow> pyval io" where
  "run_checks [] data s = (Inr approved, s)"
| "run_checks (check # rest) data s =
     (case check data s of
        (Inl e, s') \<Rightarrow> (Inl e, s')
      | (Inr result, s') \<Rightarrow>
          (case getitem result ''passed'' of
             Inl e \<Rightarrow> (Inl e, s')
           | Inr p \<Rightarrow> if \<not> truthy p then (Inr result, s') else run_checks rest data s'))"

definition checks :: "config \<Rightarrow> env \<Rightarrow> (pyval \<Rightarrow> pyval io) list" where
  "checks cfg w =
     [check_blacklists cfg w, check_rug_pull_risk cfg w, check_liquidity, validate_volume,
      analyze_holders]"

definition security_analysis :: "config \<Rightarrow> env \<Rightarrow> pyval \<Rightarrow> pyval io" where
  "security_analysis cfg w data = run_checks (checks cfg w) data"

text \<open>
  What it is for every check of a list to pass: run in order, each returns a verdict
  whose \<^verbatim>\<open>"passed"\<close> is true. The result is the request log after the last one.
\<close>

fun all_pass :: "(pyval \<Rightarrow> pyval io) list \<Rightarrow> pyval \<Rightarrow> request list \<Rightarrow> request list option" where
  "all_pass [] data s = Some s"
| "all_pass (check # rest) data s =
     (case check data s of
        (Inl e, s') \<Rightarrow> None
      | (Inr result, s') \<Rightarrow>
          (case getitem result ''passed'' of
             Inl e \<Rightarrow> None
           | Inr p \<Rightarrow> if truthy p then all_pass rest data s' else None))"

subsection \<open>Order execution\<close>

text \<open>The order dictionary, its entries evaluated from first to last.\<close>

definition build_order :: "config \<Rightarrow> pyval \<Rightarrow> decimal \<Rightarrow> exn + pyval" where
  "build_order cfg data position_size =
     (case getitem data ''pairAddress'' of Inl e \<Rightarrow> Inl e | Inr pair \<Rightarrow>
      case getitem data ''baseToken'' of Inl e \<Rightarrow> Inl e | Inr base \<Rightarrow>
      case getitem base ''address'' of Inl e \<Rightarrow> Inl e | Inr base_address \<Rightarrow>
      case getitem data ''quoteToken'' of Inl e \<Rightarrow> Inl e | Inr quote_token \<Rightarrow>
      case getitem quote_token ''address'' of Inl e \<Rightarrow> Inl e | Inr quote_address \<Rightarrow>
      case getitem data ''priceUsd'' of Inl e \<Rightarrow> Inl e | Inr price \<Rightarrow>
        Inr (PDict [(''pair'', pair), (''baseToken'', base_address),
                    (''quoteToken'', quote_address),
                    (''amount'', PStr (str_decimal position_size)),
                    (''price'', price), (''side'', PStr ''BUY''),
                    (''leverage'', leverage cfg),
                    (''stopLoss'', stop_loss_pct cfg),
                    (''takeProfit'', take_profit_pct cfg)]))"

definition execute_gmgn_order :: "config \<Rightarrow> env \<Rightarrow> pyval \<Rightarrow> pyval io" where
  "execute_gmgn_order cfg w data =
     catch
       (bind (get_gmgn_balance cfg w)
        (\<lambda>balance. bind (lift (Decimal w (position_size_pct cfg)))
        (\<lambda>pct. bind (lift (mul balance pct))
        (\<lambda>position_size. bind (lift (build_order cfg data position_size))
        (\<lambda>order. bind (send w (order_request cfg order))
        (\<lambda>response.
           if status_code response = 201 then
             bind (lift (body_json response))
             (\<lambda>logged. bind (lift (body_json response))
             (\<lambda>confirmation. ret (success_result confirmation)))
           else ret (error_result (body_text response))))))))
       (\<lambda>e. ret (error_result (str_exn e)))"

subsection \<open>The workflow\<close>

definition analyze_and_trade :: "config \<Rightarrow> env \<Rightarrow> string \<Rightarrow> pyval io" where
  "analyze_and_trade cfg w pair_address =
     catch
       (bind (get_dexscreener_data w pair_address)
        (\<lambda>pair_data.
           if \<not> truthy pair_data then ret (error_result ''Data fetch failed'')
           else bind (security_analysis cfg w pair_data)
             (\<lambda>security_check. bind (lift (getitem security_check ''approved''))
             (\<lambda>ok.
                if \<not> truthy ok then ret security_check
                else execute_gmgn_order cfg w pair_data))))
       (\<lambda>e. ret (error_result (str_exn e)))"


section \<open>Example runs\<close>

text \<open>
  A configuration with one blacklisted token and an audit threshold of 70, a pair as
  the market-data service describes it, and a world made of four answers: to the
  market-data request, the audit request, the balance request and the order. The only
  conversion to \<^verbatim>\<open>Decimal\<close> this world is asked for is \<^verbatim>\<open>Decimal("0.5")\<close> (two later
  worlds answer one other conversion each); the runs print no list or dictionary and
  lower only ASCII strings.
\<close>

definition example_config :: config where
  "example_config =
     \<lparr>blacklist_tokens = [''0xabc''], blacklist_developers = [''0xbad''],
      rugcheck_endpoint = ''https://api.rugcheck.xyz/v1'', rugcheck_min_score = FNum 70,
      gmgn_endpoint = ''https://api.gmgn.ai'', gmgn_api_key = ''secret'',
      position_size_pct = PStr ''0.5'', leverage = PInt 1, stop_loss_pct = PInt 5,
      take_profit_pct = PInt 10\<rparr>"

definition example_pair :: "string \<Rightarrow> pyval" where
  "example_pair a =
     PDict [(''pairAddress'', PStr a), (''baseToken'', PDict [(''address'', PStr ''0xbase'')]),
            (''quoteToken'', PDict [(''address'', PStr ''0xquote'')]),
            (''priceUsd'', PStr ''1.25'')]"

definition answer :: "int \<Rightarrow> string \<Rightarrow> exn + pyval \<Rightarrow> exn + response" where
  "answer code txt body = Inr \<lparr>status_code = code, body_text = txt, body_json = body\<rparr>"

definition not_json :: "exn + pyval" where
  "not_json = Inl (Raised ''JSONDecodeError'' ''Expecting value: line 1 column 1 (char 0)'')"

definition timed_out :: "exn + response" where
  "timed_out = Inl (Raised ''ConnectTimeout'' ''connection timed out'')"

definition example_env ::
    "(exn + response) \<Rightarrow> (exn + response) \<Rightarrow> (exn + response) \<Rightarrow> (exn + response) \<Rightarrow> env" where
  "example_env pair audit balance order =
     \<lparr>http = (\<lambda>r. case r of
                 Post url headers body timeout \<Rightarrow> order
               | Get url headers timeout \<Rightarrow>
                   if headers \<noteq> [] then balance
                   else if url = ''https://api.rugcheck.xyz/v1/audit/0xbase'' then audit
                   else pair),
      decimal_from = (\<lambda>v. if v = PStr ''0.5'' then Inr (Dec False 5 (- 1))
                           else Inl (Raised ''InvalidOperation'' [])),
      str_container = (\<lambda>v. []),
      str_lower = (\<lambda>s. s)\<rparr>"

definition good_audit :: "exn + response" where
  "good_audit = answer 200 [] (Inr (PDict [(''auditStatus'', PStr ''GOOD''), (''auditScore'', PInt 90)]))"

definition good_balance :: "exn + response" where
  "good_balance = answer 200 [] (Inr (PDict [(''available'', PInt 1000)]))"

definition created :: "exn + response" where
  "created = answer 201 [] (Inr (PDict [(''orderId'', PStr ''42'')]))"

definition example_order :: "string \<Rightarrow> string \<Rightarrow> pyval" where
  "example_order a amount =
     PDict [(''pair'', PStr a), (''baseToken'', PStr ''0xbase''), (''quoteToken'', PStr ''0xquote''),
            (''amount'', PStr amount), (''price'', PStr ''1.25''), (''side'', PStr ''BUY''),
            (''leverage'', PInt 1), (''stopLoss'', PInt 5), (''takeProfit'', PInt 10)]"

definition healthy_env :: env where
  "healthy_env =
     example_env (answer 200 [] (Inr (example_pair ''0xDEF''))) good_audit good_balance created"

definition bad_audit :: "exn + response" where
  "bad_audit = answer 200 [] (Inr (PDict [(''auditStatus'', PStr ''GOOD''), (''auditScore'', PInt 50)]))"

definition lax_config :: config where
  "lax_config = example_config\<lparr>rugcheck_min_score := FNum 0\<rparr>"

definition scoreless_audit :: "exn + response" where
  "scoreless_audit = answer 200 [] (Inr (PDict [(''auditStatus'', PStr ''GOOD'')]))"

definition greedy_config :: config where
  "greedy_config = example_config\<lparr>position_size_pct := PInt 2\<rparr>"

text \<open>
  An audit whose score is not a number, \<^verbatim>\<open>{"auditStatus": "GOOD", "auditScore": NaN}\<close>,
  which Python's JSON decoder accepts.
\<close>

definition nan_audit :: "exn + response" where
  "nan_audit =
     answer 200 [] (Inr (PDict [(''auditStatus'', PStr ''GOOD''),
                                (''auditScore'', PFloat FNaN ''nan'')]))"

text \<open>
  A balance of 19 digits, \<^verbatim>\<open>"1.000000000000000001"\<close>, with \<^verbatim>\<open>position_size_pct: 1\<close>.
\<close>

definition whole_config :: config where
  "whole_config = example_config\<lparr>position_size_pct := PInt 1\<rparr>"

definition precise_env :: env where
  "precise_env =
     (example_env (answer 200 [] (Inr (example_pair ''0xDEF''))) good_audit
        (answer 200 [] (Inr (PDict [(''available'', PStr ''1.000000000000000001'')]))) created)
     \<lparr>decimal_from := (\<lambda>v. if v = PStr ''1.000000000000000001''
                             then Inr (Dec False 1000000000000000001 (- 18))
                             else Inl (Raised ''InvalidOperation'' []))\<rparr>"

text \<open>
  \<^verbatim>\<open>position_size_pct: 0.1\<close>, which YAML loads as a float. The float nearest to 0.1 is
  3602879701896397 / 2^55, and \<^verbatim>\<open>Decimal\<close> of a float is its value written out in full:
  3602879701896397 * 5^55 at the exponent -55.
\<close>

definition float_config :: config where
  "float_config = example_config
     \<lparr>position_size_pct := PFloat (FNum (3602879701896397 / 36028797018963968)) ''0.1''\<rparr>"

definition float_env :: env where
  "float_env = healthy_env
     \<lparr>decimal_from := (\<lambda>v.
        if v = PFloat (FNum (3602879701896397 / 36028797018963968)) ''0.1''
        then Inr (Dec False 1000000000000000055511151231257827021181583404541015625 (- 55))
        else Inl (Raised ''InvalidOperation'' []))\<rparr>"


text \<open>
  What the audit provider answered to the request for a token: the decoded JSON, or the
  exception raised on the way (by the request or by the decoding). Likewise what
  reading the balance yields. Both only name, for the statements below, what the
  program computes inline.
\<close>

definition audit_answer :: "config \<Rightarrow> env \<Rightarrow> pyval \<Rightarrow> exn + pyval" where
  "audit_answer cfg w address =
     (case http w (audit_request cfg w address) of Inl e \<Rightarrow> Inl e | Inr r \<Rightarrow> body_json r)"

definition balance_reading :: "config \<Rightarrow> env \<Rightarrow> exn + decimal" where
  "balance_reading cfg w =
     (case http w (balance_request cfg) of
        Inl e \<Rightarrow> Inl e
      | Inr r \<Rightarrow>
         (case body_json r of
            Inl e \<Rightarrow> Inl e
          | Inr body \<Rightarrow>
             (case getitem body ''available'' of Inl e \<Rightarrow> Inl e | Inr a \<Rightarrow> Decimal w a)))"

section \<open>Properties\<close>

subsection \<open>Running the program\<close>

lemmas io_defs = bind_def catch_def lift_def ret_def send_def

lemma getitem_failed [simp]:
  "getitem (failed m) ''passed'' = Inr (PBool False)"
  "getitem (failed m) ''approved'' = Inl (KeyError ''approved'')"
  by (simp_all add: failed_def)

lemma getitem_passed [simp]: "getitem passed ''passed'' = Inr (PBool True)"
  by (simp add: passed_def)

lemma getitem_approved_passed: "getitem approved ''passed'' = Inl (KeyError ''passed'')"
  by (simp add: approved_def)

lemma is_post_requests [simp]:
  "\<not> is_post (pair_request a)" "\<not> is_post (audit_request cfg w v)"
  "\<not> is_post (balance_request cfg)" "is_post (order_request cfg order)"
  by (simp_all add: pair_request_def audit_request_def balance_request_def order_request_def)

lemma get_dexscreener_data_eq:
  "get_dexscreener_data w pair_address s =
     (Inr (case http w (pair_request pair_address) of
             Inl e \<Rightarrow> PNone
           | Inr response \<Rightarrow> (case body_json response of Inl e \<Rightarrow> PNone | Inr d \<Rightarrow> d)),
      s @ [pair_request pair_address])"
  by (simp add: get_dexscreener_data_def io_defs split: sum.splits)

lemma check_blacklists_cases:
  "\<exists>r. check_blacklists cfg w data s = (r, s) \<and>
     (r = Inr passed \<or> r = Inr (failed ''Token blacklisted'') \<or>
      r = Inr (failed ''Developer blacklisted'') \<or> (\<exists>e. r = Inl e))"
  by (auto simp: check_blacklists_def io_defs split: sum.splits)

lemma check_rug_pull_risk_cases:
  "\<exists>v s'. check_rug_pull_risk cfg w data s = (Inr v, s') \<and> (v = passed \<or> (\<exists>m. v = failed m)) \<and>
     (s' = s \<or> (\<exists>a. s' = s @ [audit_request cfg w a]))"
  by (auto simp: check_rug_pull_risk_def io_defs split: sum.splits)

lemma run_stubs:
  "run_checks [check_liquidity, validate_volume, analyze_holders] data s =
     (Inl (TypeError (quote ''NoneType'' @ '' object is not subscriptable'')), s)"
  by (simp add: check_liquidity_def io_defs)

lemma security_analysis_cases:
  "\<exists>r s'. security_analysis cfg w data s = (r, s') \<and>
     ((\<exists>e. r = Inl e) \<or> (\<exists>m. r = Inr (failed m))) \<and> filter is_post s' = filter is_post s"
proof -
  obtain r1 where b: "check_blacklists cfg w data s = (r1, s)"
    and r1: "r1 = Inr passed \<or> r1 = Inr (failed ''Token blacklisted'') \<or>
      r1 = Inr (failed ''Developer blacklisted'') \<or> (\<exists>e. r1 = Inl e)"
    using check_blacklists_cases by blast
  obtain v s2 where a: "check_rug_pull_risk cfg w data s = (Inr v, s2)"
    and v: "v = passed \<or> (\<exists>m. v = failed m)"
    and s2: "s2 = s \<or> (\<exists>a. s2 = s @ [audit_request cfg w a])"
    using check_rug_pull_risk_cases by blast
  have p: "filter is_post s2 = filter is_post s" using s2 by auto
  show ?thesis
    using r1 v p run_stubs [of data s2]
    by (auto simp: security_analysis_def checks_def b a)
qed

lemma analyze_and_trade_cases:
  assumes d: "get_dexscreener_data w pair_address s = (Inr d, s1)"
    and sa: "security_analysis cfg w d s1 = (r, s2)"
    and r: "(\<exists>e. r = Inl e) \<or> (\<exists>m. r = Inr (failed m))"
  shows "analyze_and_trade cfg w pair_address s =
      (if \<not> truthy d then (Inr (error_result ''Data fetch failed''), s1)
       else case r of Inl e \<Rightarrow> (Inr (error_result (str_exn e)), s2)
            | Inr v \<Rightarrow> (Inr (error_result (quote ''approved'')), s2))"
  using r unfolding analyze_and_trade_def
  by (auto simp: io_defs d sa)

lemma both_pass_then_type_error:
  assumes "get_dexscreener_data w pair_address s = (Inr data, s1)" and "truthy data"
    and "check_blacklists cfg w data s1 = (Inr passed, s1)"
    and "check_rug_pull_risk cfg w data s1 = (Inr passed, s2)"
  shows "analyze_and_trade cfg w pair_address s =
        (Inr (error_result (quote ''NoneType'' @ '' object is not subscriptable'')), s2)"
proof -
  have sa: "security_analysis cfg w data s1 =
      (Inl (TypeError (quote ''NoneType'' @ '' object is not subscriptable'')), s2)"
    using assms(3,4) run_stubs [of data s2] by (simp add: security_analysis_def checks_def)
  show ?thesis
    using analyze_and_trade_cases [OF assms(1) sa] assms(2) by simp
qed

lemma run_checks_first_failure:
  "all_pass pre data s = Some s1 \<Longrightarrow> c data s1 = (Inr v, s2) \<Longrightarrow>
   getitem v ''passed'' = Inr p \<Longrightarrow> \<not> truthy p \<Longrightarrow>
   run_checks (pre @ c # post) data s = (Inr v, s2)"
proof (induction pre arbitrary: s)
  case Nil
  then show ?case by simp
next
  case (Cons a pre)
  then show ?case
    by (auto split: prod.splits sum.splits if_splits)
qed

lemma run_checks_approved_iff:
  "run_checks cs data s = (Inr approved, s') \<longleftrightarrow> all_pass cs data s = Some s'"
proof (induction cs arbitrary: s)
  case Nil
  then show ?case by auto
next
  case (Cons a cs)
  then show ?case
    by (auto simp: getitem_approved_passed split: prod.splits sum.splits if_splits)
qed

lemma audit_not_reached:
  "getitem data ''baseToken'' = Inl e \<or>
   (getitem data ''baseToken'' = Inr base \<and> getitem base ''address'' = Inl e) \<Longrightarrow>
   check_rug_pull_risk cfg w data s = (Inr (failed ''Audit verification error''), s)"
  by (auto simp: check_rug_pull_risk_def io_defs)

lemma audit_reached:
  assumes "getitem data ''baseToken'' = Inr base" and "getitem base ''address'' = Inr address"
  shows "check_rug_pull_risk cfg w data s =
    (Inr (case http w (audit_request cfg w address) of
            Inl e \<Rightarrow> failed ''Audit verification error''
          | Inr response \<Rightarrow>
             (case body_json response of
                Inl e \<Rightarrow> failed ''Audit verification error''
              | Inr audit \<Rightarrow>
                 (case get_default audit ''auditStatus'' PNone of
                    Inl e \<Rightarrow> failed ''Audit verification error''
                  | Inr status \<Rightarrow>
                     if status \<noteq> PStr ''GOOD'' then failed ''Failed security audit''
                     else (case get_default audit ''auditScore'' (PInt 0) of
                        Inl e \<Rightarrow> failed ''Audit verification error''
                      | Inr score \<Rightarrow>
                         (case num_of score of
                            None \<Rightarrow> failed ''Audit verification error''
                          | Some x \<Rightarrow>
                             if fval_less x (rugcheck_min_score cfg) then
                               (case getitem audit ''auditScore'' of
                                  Inl e \<Rightarrow> failed ''Audit verification error''
                                | Inr shown \<Rightarrow> failed (''Low audit score: '' @ format_val w shown))
                             else passed))))),
     s @ [audit_request cfg w address])"
  using assms
  by (simp add: check_rug_pull_risk_def io_defs less_num_def split: sum.splits option.splits)

lemma getitem_get_default:
  "getitem a k = Inr v \<Longrightarrow> get_default a k d = Inr v"
  by (cases a) (auto split: option.splits)

lemma get_default_missing:
  "getitem a k = Inl e \<Longrightarrow> get_default a k' d' = Inr x \<Longrightarrow> get_default a k d = Inr d"
  by (cases a) (auto split: option.splits)

lemma get_gmgn_balance_eq:
  "get_gmgn_balance cfg w s =
     (Inr (case balance_reading cfg w of Inl e \<Rightarrow> Dec False 0 0 | Inr d \<Rightarrow> d),
      s @ [balance_request cfg])"
  by (simp add: get_gmgn_balance_def balance_reading_def io_defs decimal_of_int_def
      split: sum.splits)

lemma execute_not_sent:
  assumes "get_gmgn_balance cfg w s = (Inr balance, s1)"
    and "Decimal w (position_size_pct cfg) = Inl e \<or>
         (Decimal w (position_size_pct cfg) = Inr pct \<and> mul balance pct = Inl e) \<or>
         (Decimal w (position_size_pct cfg) = Inr pct \<and> mul balance pct = Inr amount \<and>
          build_order cfg data amount = Inl e)"
  shows "execute_gmgn_order cfg w data s = (Inr (error_result (str_exn e)), s1)"
  using assms by (auto simp: execute_gmgn_order_def io_defs)

lemma execute_sent:
  assumes "get_gmgn_balance cfg w s = (Inr balance, s1)"
    and "Decimal w (position_size_pct cfg) = Inr pct"
    and "mul balance pct = Inr amount"
    and "build_order cfg data amount = Inr order"
  shows "execute_gmgn_order cfg w data s =
     (Inr (case http w (order_request cfg order) of
             Inl e \<Rightarrow> error_result (str_exn e)
           | Inr r \<Rightarrow>
               if status_code r = 201 then
                 (case body_json r of
                    Inl e \<Rightarrow> error_result (str_exn e)
                  | Inr confirmation \<Rightarrow> success_result confirmation)
               else error_result (body_text r)),
      s1 @ [order_request cfg order])"
  using assms by (simp add: execute_gmgn_order_def io_defs split: sum.splits)

lemma execute_cases:
  "\<exists>v s'. execute_gmgn_order cfg w data s = (Inr v, s') \<and>
     (s' = s @ [balance_request cfg] \<or>
      (\<exists>order. s' = s @ [balance_request cfg, order_request cfg order]))"
proof -
  obtain b where b: "get_gmgn_balance cfg w s = (Inr b, s @ [balance_request cfg])"
    using get_gmgn_balance_eq by blast
  show ?thesis
  proof (cases "Decimal w (position_size_pct cfg)")
    case (Inl e)
    then show ?thesis using execute_not_sent [OF b] by blast
  next
    case p: (Inr pct)
    show ?thesis
    proof (cases "mul b pct")
      case (Inl e)
      then show ?thesis using execute_not_sent [OF b] p by blast
    next
      case m: (Inr amount)
      show ?thesis
      proof (cases "build_order cfg data amount")
        case (Inl e)
        then show ?thesis using execute_not_sent [OF b] p m by blast
      next
        case (Inr order)
        then show ?thesis using execute_sent [OF b p m] by auto
      qed
    qed
  qed
qed

lemma audit_passes_iff:
  "check_rug_pull_risk cfg w data s = (Inr passed, s') \<longleftrightarrow>
     (\<exists>base address audit score x.
        getitem data ''baseToken'' = Inr base \<and> getitem base ''address'' = Inr address \<and>
        audit_answer cfg w address = Inr audit \<and>
        get_default audit ''auditStatus'' PNone = Inr (PStr ''GOOD'') \<and>
        get_default audit ''auditScore'' (PInt 0) = Inr score \<and> num_of score = Some x \<and>
        \<not> fval_less x (rugcheck_min_score cfg) \<and> s' = s @ [audit_request cfg w address])"
proof (cases "getitem data ''baseToken''")
  case (Inl e)
  then show ?thesis
    using audit_not_reached [of data e _ cfg w s] by (auto simp: failed_def passed_def)
next
  case b: (Inr base)
  show ?thesis
  proof (cases "getitem base ''address''")
    case (Inl e)
    then show ?thesis
      using b audit_not_reached [of data e base cfg w s] by (auto simp: failed_def passed_def)
  next
    case (Inr address)
    show ?thesis
      unfolding audit_reached [OF b Inr]
      using b Inr
      by (auto simp: audit_answer_def failed_def passed_def
          split: sum.splits option.splits if_splits)
  qed
qed



subsection \<open>Decimal rounding\<close>

lemma digits_bounds:
  "0 < n \<Longrightarrow> 10 ^ (length (digits n) - 1) \<le> n \<and> n < 10 ^ length (digits n)"
proof (induction n rule: digits.induct)
  case (1 n)
  show ?case
  proof (cases "n < 10")
    case True
    with "1.prems" show ?thesis by (simp add: digits.simps [of n])
  next
    case False
    then have pos: "0 < n div 10" by simp
    from "1.IH" [OF False pos]
    have lo: "10 ^ (length (digits (n div 10)) - 1) \<le> n div 10"
      and hi: "n div 10 < 10 ^ length (digits (n div 10))" by simp_all
    have len: "length (digits n) = Suc (length (digits (n div 10)))"
      using False by (simp add: digits.simps [of n])
    have l1: "0 < length (digits (n div 10))"
      by (subst digits.simps) simp
    have "10 * 10 ^ (length (digits (n div 10)) - 1) \<le> n"
      using lo by linarith
    moreover have "10 * 10 ^ (length (digits (n div 10)) - 1) = (10::nat) ^ length (digits (n div 10))"
      using l1 by (cases "length (digits (n div 10))") simp_all
    moreover have "n < 10 * 10 ^ length (digits (n div 10))"
      using hi by linarith
    ultimately show ?thesis by (simp add: len)
  qed
qed

lemma digits_nonempty: "0 < length (digits n)"
  by (subst digits.simps) simp

lemma digits_le: "n < 10 ^ k \<Longrightarrow> 0 < k \<Longrightarrow> length (digits n) \<le> k"
proof (cases "n = 0")
  case True
  assume "0 < k"
  with True show ?thesis by (simp add: digits.simps [of 0])
next
  case False
  assume "n < 10 ^ k"
  moreover have "10 ^ (length (digits n) - 1) \<le> n"
    using False digits_bounds [of n] by simp
  ultimately have "(10::nat) ^ (length (digits n) - 1) < 10 ^ k"
    by (rule le_less_trans [rotated])
  then have "length (digits n) - 1 < k"
    by (simp only: power_strict_increasing_iff [of 10] one_less_numeral_iff num.distinct
        semiring_norm)
  then show ?thesis by simp
qed

lemma digits_gt: "10 ^ k \<le> n \<Longrightarrow> k < length (digits n)"
proof -
  assume a: "10 ^ k \<le> n"
  have "(0::nat) < 10 ^ k" by simp
  with a have "0 < n" by linarith
  then have "n < 10 ^ length (digits n)"
    using digits_bounds [of n] by simp
  with a have "(10::nat) ^ k < 10 ^ length (digits n)" by (rule le_less_trans)
  then show ?thesis by simp
qed

lemma round_half_even_error:
  "2 * \<bar>int (round_half_even c k) * 10 ^ k - int c\<bar> \<le> 10 ^ k"
proof -
  define q where "q = c div 10 ^ k"
  define r where "r = c mod 10 ^ k"
  define t where "t = (10::nat) ^ k"
  have "c = q * t + r"
    unfolding q_def r_def t_def by (rule div_mult_mod_eq [symmetric])
  then have c: "int c = int q * int t + int r"
    by simp
  have "r < t"
    by (simp add: r_def t_def)
  then have r: "int r < int t"
    by simp
  have t: "(10::int) ^ k = int t"
    by (simp add: t_def)
  show ?thesis
  proof (cases "t < 2 * r \<or> (2 * r = t \<and> odd q)")
    case True
    then have "round_half_even c k = q + 1"
      by (simp add: round_half_even_def q_def r_def t_def Let_def)
    moreover have "t \<le> 2 * r"
      using True by auto
    then have "int t \<le> 2 * int r"
      by linarith
    ultimately show ?thesis
      unfolding t using c r by (simp add: algebra_simps)
  next
    case False
    then have "round_half_even c k = q"
      by (auto simp add: round_half_even_def q_def r_def t_def Let_def)
    moreover have "2 * r \<le> t"
      using False by auto
    then have "2 * int r \<le> int t"
      by linarith
    ultimately show ?thesis
      unfolding t using c by (simp add: algebra_simps)
  qed
qed

lemma round_half_even_le: "c \<le> B * 10 ^ k \<Longrightarrow> round_half_even c k \<le> B"
proof -
  assume a: "c \<le> B * 10 ^ k"
  have "c div 10 ^ k \<le> (B * 10 ^ k) div 10 ^ k"
    using a by (rule div_le_mono)
  then have q: "c div 10 ^ k \<le> B"
    by simp
  show ?thesis
  proof (cases "c div 10 ^ k = B")
    case True
    have "c = (c div 10 ^ k) * 10 ^ k + c mod 10 ^ k"
      by (rule div_mult_mod_eq [symmetric])
    then have "c = B * 10 ^ k + c mod 10 ^ k"
      using True by simp
    with a have "c mod 10 ^ k = 0" by linarith
    then show ?thesis using True by (simp add: round_half_even_def Let_def)
  next
    case False
    with q have "c div 10 ^ k < B" by simp
    then show ?thesis by (simp add: round_half_even_def Let_def)
  qed
qed

lemma round_half_even_ge: "c div 10 ^ k \<le> round_half_even c k"
  by (simp add: round_half_even_def Let_def)

lemma powi_shift: "(10::rat) powi (e + int k) = 10 powi e * 10 ^ k"
  by (simp add: power_int_add)

lemma scaled_error:
  assumes "2 * \<bar>int a * 10 ^ k - int c\<bar> \<le> 10 ^ k"
  shows "2 * \<bar>of_nat a * 10 powi (e + int k) - of_nat c * (10::rat) powi e\<bar> \<le> 10 powi (e + int k)"
proof -
  define P where "P = (10::rat) powi e"
  have P: "0 < P" by (simp add: P_def)
  have eq: "of_nat a * (P * 10 ^ k) - of_nat c * P = P * of_int (int a * 10 ^ k - int c)"
    by (simp add: algebra_simps)
  have "of_int (2 * \<bar>int a * 10 ^ k - int c\<bar>) \<le> (of_int (10 ^ k) :: rat)"
    using assms by (simp only: of_int_le_iff)
  then have "2 * \<bar>of_int (int a * 10 ^ k - int c)\<bar> \<le> (10::rat) ^ k"
    by simp
  then have "P * (2 * \<bar>of_int (int a * 10 ^ k - int c)\<bar>) \<le> P * 10 ^ k"
    using P by (simp only: mult_le_cancel_left_pos)
  then have "2 * \<bar>P * of_int (int a * 10 ^ k - int c)\<bar> \<le> P * 10 ^ k"
    using P by (simp add: abs_mult)
  then show ?thesis
    unfolding powi_shift P_def [symmetric] eq .
qed

lemma fix_dec_zero: "fix_dec s 0 e = Inr (Dec s 0 (min (max e Etiny) Emax))"
  by (simp add: fix_dec_def)

lemma fix_dec_exact:
  assumes "0 < c" and "c < 10 ^ 18" and "Etiny \<le> e" and "e \<le> Etop"
  shows "fix_dec s c e = Inr (Dec s c e)"
proof -
  have "length (digits c) \<le> 18"
    using assms(2) by (rule digits_le) simp
  then have "\<not> e < max (int (length (digits c)) + e - int prec) Etiny"
    and "\<not> int (length (digits c)) + e - int prec > Etop"
    using assms by (simp_all add: prec_def)
  then show ?thesis
    using assms(1) unfolding fix_dec_def Let_def by simp
qed

lemma round_half_even_tie:
  assumes "2 * \<bar>int (round_half_even c k) * 10 ^ k - int c\<bar> = 10 ^ k"
  shows "even (round_half_even c k)"
proof -
  define q where "q = c div 10 ^ k"
  define r where "r = c mod 10 ^ k"
  define t where "t = (10::nat) ^ k"
  have "c = q * t + r"
    unfolding q_def r_def t_def by (rule div_mult_mod_eq [symmetric])
  then have c: "int c = int q * int t + int r"
    by simp
  have "r < t"
    by (simp add: r_def t_def)
  then have r: "int r < int t"
    by simp
  have t: "(10::int) ^ k = int t"
    by (simp add: t_def)
  show ?thesis
  proof (cases "t < 2 * r \<or> (2 * r = t \<and> odd q)")
    case True
    then have up: "round_half_even c k = q + 1"
      by (simp add: round_half_even_def q_def r_def t_def Let_def)
    have "2 * int r = int t"
      using assms r unfolding up t c by (simp add: algebra_simps)
    then have "2 * r = t" by linarith
    with True have "odd q" by auto
    then show ?thesis by (simp add: up)
  next
    case False
    then have down: "round_half_even c k = q"
      by (auto simp add: round_half_even_def q_def r_def t_def Let_def)
    have "2 * int r = int t"
      using assms unfolding down t c by (simp add: algebra_simps)
    then have "2 * r = t" by linarith
    with False have "even q" by auto
    then show ?thesis by (simp add: down)
  qed
qed

lemma scaled_tie:
  assumes "2 * \<bar>of_nat a * 10 powi (e + int k) - of_nat c * (10::rat) powi e\<bar> = 10 powi (e + int k)"
  shows "2 * \<bar>int a * 10 ^ k - int c\<bar> = 10 ^ k"
proof -
  define P where "P = (10::rat) powi e"
  have P: "0 < P" by (simp add: P_def)
  have eq: "of_nat a * (P * 10 ^ k) - of_nat c * P = P * of_int (int a * 10 ^ k - int c)"
    by (simp add: algebra_simps)
  have "2 * \<bar>P * of_int (int a * 10 ^ k - int c)\<bar> = P * 10 ^ k"
    using assms unfolding powi_shift P_def [symmetric] eq .
  then have "P * (2 * \<bar>of_int (int a * 10 ^ k - int c)\<bar>) = P * 10 ^ k"
    using P by (simp add: abs_mult)
  then have "2 * \<bar>of_int (int a * 10 ^ k - int c)\<bar> = (10::rat) ^ k"
    using P by simp
  then have "(of_int (2 * \<bar>int a * 10 ^ k - int c\<bar>) :: rat) = of_int (10 ^ k)"
    by simp
  then show ?thesis
    by (simp only: of_int_eq_iff)
qed

lemma fix_dec_nearest_even:
  assumes "0 < c" and "fix_dec s c e = Inr r"
  shows "\<exists>c' e'. r = Dec s c' e' \<and> c' < 10 ^ 18 \<and>
     2 * \<bar>of_nat c' * 10 powi e' - of_nat c * (10::rat) powi e\<bar> \<le> 10 powi e' \<and>
     (2 * \<bar>of_nat c' * 10 powi e' - of_nat c * (10::rat) powi e\<bar> = 10 powi e' \<longrightarrow> even c') \<and>
     (r = Dec s c e \<or> 10 ^ 17 \<le> c' \<or> e' = Etiny)"
proof -
  define L where "L = length (digits c)"
  define em where "em = max (int L + e - 18) Etiny"
  have cL: "c < 10 ^ L" and cL1: "10 ^ (L - 1) \<le> c"
    using assms(1) digits_bounds [of c] by (simp_all add: L_def)
  have top: "\<not> int L + e - 18 > Etop"
    using assms by (auto simp: fix_dec_def L_def prec_def Let_def split: if_splits)
  show ?thesis
  proof (cases "e < em")
    case no: False
    then have r: "r = Dec s c e"
      using assms top by (simp add: fix_dec_def L_def em_def prec_def Let_def)
    have "L \<le> 18" using no by (simp add: em_def)
    then have "(10::nat) ^ L \<le> 10 ^ 18"
      by (simp only: power_increasing_iff [of 10] one_less_numeral_iff num.distinct semiring_norm)
    with cL have "c < 10 ^ 18" by linarith
    moreover have "(0::rat) < 10 powi e" by simp
    ultimately show ?thesis using r by auto
  next
    case yes: True
    define k where "k = nat (em - e)"
    define coeff where "coeff = round_half_even c k"
    have k: "em = e + int k" using yes by (simp add: k_def)
    have "int L - 18 \<le> int k" using k by (simp add: em_def)
    then have "L \<le> 18 + k" by linarith
    then have "(10::nat) ^ L \<le> 10 ^ (18 + k)"
      by (simp only: power_increasing_iff [of 10] one_less_numeral_iff num.distinct semiring_norm)
    with cL have "c \<le> 10 ^ 18 * 10 ^ k" by (simp add: power_add)
    then have cle: "coeff \<le> 10 ^ 18"
      unfolding coeff_def by (rule round_half_even_le)
    have err: "2 * \<bar>of_nat coeff * 10 powi em - of_nat c * (10::rat) powi e\<bar> \<le> 10 powi em"
      unfolding k coeff_def by (rule scaled_error) (rule round_half_even_error)
    have tie: "even coeff"
      if "2 * \<bar>of_nat coeff * 10 powi em - of_nat c * (10::rat) powi e\<bar> = 10 powi em"
      using that unfolding k coeff_def by (intro round_half_even_tie scaled_tie)
    have full: "10 ^ 17 \<le> coeff \<or> em = Etiny"
    proof (cases "em = Etiny")
      case False
      then have "em = int L + e - 18" by (simp add: em_def)
      with k have "L = 18 + k" by linarith
      then have "L - 1 = 17 + k" by simp
      with cL1 have "10 ^ 17 * 10 ^ k \<le> c" by (simp add: power_add)
      then have "10 ^ 17 * 10 ^ k div 10 ^ k \<le> c div 10 ^ k" by (rule div_le_mono)
      then have "10 ^ 17 \<le> c div 10 ^ k" by simp
      with round_half_even_ge [of c k] have "10 ^ 17 \<le> coeff"
        unfolding coeff_def by linarith
      then show ?thesis by simp
    qed simp
    have res: "Inr r = (if length (digits coeff) > 18
            then (if em + 1 > Etop then Inl overflow else Inr (Dec s (coeff div 10) (em + 1)))
            else Inr (Dec s coeff em))"
      using assms top yes
      by (simp add: fix_dec_def L_def [symmetric] prec_def Let_def em_def [symmetric]
          k_def [symmetric] coeff_def [symmetric])
    show ?thesis
    proof (cases "length (digits coeff) > 18")
      case carry: True
      have "\<not> coeff < 10 ^ 18"
      proof
        assume "coeff < 10 ^ 18"
        then have "length (digits coeff) \<le> 18" by (rule digits_le) simp
        with carry show False by simp
      qed
      with cle have c18: "coeff = 10 ^ 18" by simp
      have r: "r = Dec s (coeff div 10) (em + 1)"
        using res carry by (simp split: if_splits)
      have val: "of_nat (coeff div 10) * (10::rat) powi (em + 1) = of_nat coeff * 10 powi em"
        by (simp add: c18 power_int_add)
      have "(10::rat) powi em \<le> 10 powi (em + 1)"
        by (simp add: power_int_add)
      with err have "2 * \<bar>of_nat (coeff div 10) * 10 powi (em + 1) - of_nat c * (10::rat) powi e\<bar>
          \<le> 10 powi (em + 1)"
        unfolding val by linarith
      moreover have "coeff div 10 < 10 ^ 18" "even (coeff div 10)" "10 ^ 17 \<le> coeff div 10"
        by (simp_all add: c18)
      ultimately show ?thesis using r by blast
    next
      case plain: False
      have r: "r = Dec s coeff em"
        using res plain by simp
      have "coeff < 10 ^ 18"
      proof (rule ccontr)
        assume "\<not> coeff < 10 ^ 18"
        then have "10 ^ 18 \<le> coeff" by simp
        then have "18 < length (digits coeff)" by (rule digits_gt)
        with plain show False by simp
      qed
      then show ?thesis using r err tie full by blast
    qed
  qed
qed

lemma fix_dec_returns:
  assumes "int (length (digits c)) + e \<le> Emax"
  shows "\<exists>r. fix_dec s c e = Inr r"
  using assms
  by (auto simp: fix_dec_def Let_def prec_def Etop_def Etiny_def Emax_def Emin_def)

lemma fix_dec_value:
  assumes "0 < c" and "fix_dec s c e = Inr r"
    and "em = max (int (length (digits c)) + e - 18) Etiny"
  shows "\<exists>c' e'. r = Dec s c' e' \<and>
     (if e < em
      then of_nat c' * (10::rat) powi e' = of_nat (round_half_even c (nat (em - e))) * 10 powi em
      else c' = c \<and> e' = e)"
proof -
  define L where "L = length (digits c)"
  have em: "em = max (int L + e - 18) Etiny" by (simp add: assms(3) L_def)
  have cL: "c < 10 ^ L"
    using assms(1) digits_bounds [of c] by (simp add: L_def)
  have top: "\<not> int L + e - 18 > Etop"
    using assms(1,2) by (auto simp: fix_dec_def L_def prec_def Let_def split: if_splits)
  show ?thesis
  proof (cases "e < em")
    case False
    then have "r = Dec s c e"
      using assms(1,2) top by (simp add: fix_dec_def L_def em prec_def Let_def)
    then show ?thesis using False by simp
  next
    case yes: True
    define k where "k = nat (em - e)"
    define coeff where "coeff = round_half_even c k"
    have k: "em = e + int k" using yes by (simp add: k_def)
    have "int L - 18 \<le> int k" using k by (simp add: em)
    then have "L \<le> 18 + k" by linarith
    then have "(10::nat) ^ L \<le> 10 ^ (18 + k)"
      by (simp only: power_increasing_iff [of 10] one_less_numeral_iff num.distinct semiring_norm)
    with cL have "c \<le> 10 ^ 18 * 10 ^ k" by (simp add: power_add)
    then have cle: "coeff \<le> 10 ^ 18"
      unfolding coeff_def by (rule round_half_even_le)
    have res: "Inr r = (if length (digits coeff) > 18
            then (if em + 1 > Etop then Inl overflow else Inr (Dec s (coeff div 10) (em + 1)))
            else Inr (Dec s coeff em))"
      using assms(1,2) top yes
      by (simp add: fix_dec_def L_def [symmetric] prec_def Let_def em [symmetric]
          k_def [symmetric] coeff_def [symmetric])
    show ?thesis
    proof (cases "length (digits coeff) > 18")
      case carry: True
      have "\<not> coeff < 10 ^ 18"
      proof
        assume "coeff < 10 ^ 18"
        then have "length (digits coeff) \<le> 18" by (rule digits_le) simp
        with carry show False by simp
      qed
      with cle have c18: "coeff = 10 ^ 18" by simp
      have r: "r = Dec s (coeff div 10) (em + 1)"
        using res carry by (simp split: if_splits)
      have "of_nat (coeff div 10) * (10::rat) powi (em + 1) = of_nat coeff * 10 powi em"
        by (simp add: c18 power_int_add)
      then show ?thesis
        using r yes by (simp add: coeff_def k_def)
    next
      case False
      then have "r = Dec s coeff em" using res by simp
      then show ?thesis
        using yes by (simp add: coeff_def k_def)
    qed
  qed
qed

lemma pct_at_most_one:
  assumes "0 < cp" and "of_nat cp * (10::rat) powi ep \<le> 1"
  shows "ep \<le> 0 \<and> cp \<le> 10 ^ nat (- ep)"
proof -
  have ep: "ep \<le> 0"
  proof (rule ccontr)
    assume "\<not> ep \<le> 0"
    then have "(1::rat) < 10 powi ep"
      by (simp add: power_int_def)
    moreover have "(1::rat) \<le> of_nat cp" using assms(1) by simp
    ultimately have "(1::rat) < of_nat cp * 10 powi ep"
      by (metis less_le_trans mult.commute mult.right_neutral mult_le_cancel_left_pos
          power_int_def zero_less_numeral zero_less_power_int)
    with assms(2) show False by simp
  qed
  then have p: "(10::rat) powi ep = 1 / 10 ^ nat (- ep)"
    by (simp add: power_int_def field_simps)
  have "(of_nat cp :: rat) \<le> 10 ^ nat (- ep)"
    using assms(2) unfolding p by (simp add: field_simps)
  then have "(of_nat cp :: rat) \<le> of_nat (10 ^ nat (- ep))" by simp
  then have "cp \<le> 10 ^ nat (- ep)" by (simp only: of_nat_le_iff)
  with ep show ?thesis by simp
qed

lemma size_within_balance:
  assumes cb: "0 < cb" and cb18: "cb < 10 ^ 18" and cp: "0 < cp"
    and le1: "of_nat cp * (10::rat) powi ep \<le> 1"
    and lo: "Etiny \<le> eb + ep" and hi: "eb + 18 \<le> Emax"
  shows "\<exists>c e. mul (Dec False cb eb) (Dec False cp ep) = Inr (Dec False c e) \<and>
     0 < of_nat c * (10::rat) powi e \<and> of_nat c * (10::rat) powi e \<le> of_nat cb * 10 powi eb"
proof -
  define m where "m = nat (- ep)"
  have ep: "ep = - int m" and cpm: "cp \<le> 10 ^ m"
    using pct_at_most_one [OF cp le1] by (simp_all add: m_def)
  define c where "c = cb * cp"
  define e where "e = eb + ep"
  define L where "L = length (digits c)"
  have cpos: "0 < c" using cb cp by (simp add: c_def)
  have "cb * cp \<le> cb * 10 ^ m" using cpm by simp
  then have cle: "c \<le> cb * 10 ^ m" by (simp add: c_def)
  have "cb * 10 ^ m < 10 ^ 18 * 10 ^ m" using cb18 by simp
  with cle have "c < 10 ^ 18 * 10 ^ m" by (rule le_less_trans)
  then have "c < 10 ^ (18 + m)" by (simp only: power_add)
  then have Lm: "L \<le> 18 + m" unfolding L_def by (rule digits_le) simp
  have "int L + e \<le> Emax" using Lm hi by (simp add: e_def ep)
  then obtain r where r: "fix_dec False c e = Inr r"
    using fix_dec_returns unfolding L_def by blast
  define em where "em = max (int L + e - 18) Etiny"
  obtain c' e' where r': "r = Dec False c' e'"
    and v: "if e < em
      then of_nat c' * (10::rat) powi e' = of_nat (round_half_even c (nat (em - e))) * 10 powi em
      else c' = c \<and> e' = e"
    using fix_dec_value [OF cpos r, of em] unfolding em_def L_def by blast
  have mul: "mul (Dec False cb eb) (Dec False cp ep) = Inr (Dec False c' e')"
    using r r' by (simp add: c_def e_def)
  have exact: "of_nat c * (10::rat) powi e = (of_nat cb * 10 powi eb) * (of_nat cp * 10 powi ep)"
    by (simp add: c_def e_def power_int_add)
  have bpos: "0 < of_nat cb * (10::rat) powi eb" using cb by simp
  show ?thesis
  proof (cases "e < em")
    case False
    with v have "c' = c" "e' = e" by simp_all
    moreover have "0 < of_nat c * (10::rat) powi e" using cpos by simp
    moreover have "of_nat c * (10::rat) powi e \<le> of_nat cb * 10 powi eb"
      unfolding exact using le1 bpos
      by (metis mult.right_neutral mult_le_cancel_left_pos)
    ultimately show ?thesis using mul by blast
  next
    case True
    define k where "k = nat (em - e)"
    have "Etiny \<le> e" using lo by (simp add: e_def)
    with True have em: "em = int L + e - 18" by (simp add: em_def)
    then have k: "int k = int L - 18" and kpos: "0 < k" using True by (simp_all add: k_def)
    then have km: "k \<le> m" using Lm by linarith
    have val: "of_nat c' * (10::rat) powi e' = of_nat (round_half_even c k) * 10 powi em"
      using v True by (simp add: k_def)
    have "cb * 10 ^ m = cb * 10 ^ (m - k) * 10 ^ k"
      using km by (simp add: power_add [symmetric])
    with cle have "c \<le> cb * 10 ^ (m - k) * 10 ^ k" by simp
    then have up: "round_half_even c k \<le> cb * 10 ^ (m - k)" by (rule round_half_even_le)
    have "k \<le> L - 1" using k by linarith
    then have "(10::nat) ^ k \<le> 10 ^ (L - 1)"
      by (simp only: power_increasing_iff [of 10] one_less_numeral_iff num.distinct semiring_norm)
    moreover have "10 ^ (L - 1) \<le> c"
      using cpos digits_bounds [of c] by (simp add: L_def)
    ultimately have "10 ^ k \<le> c" by linarith
    then have "10 ^ k div 10 ^ k \<le> c div 10 ^ k" by (rule div_le_mono)
    then have "1 \<le> c div 10 ^ k" by simp
    with round_half_even_ge [of c k] have rpos: "0 < round_half_even c k" by linarith
    have P: "0 < (10::rat) powi em" by simp
    have "(of_nat (round_half_even c k) :: rat) \<le> of_nat (cb * 10 ^ (m - k))"
      using up by (simp only: of_nat_le_iff)
    then have A: "of_nat (round_half_even c k) * (10::rat) powi em \<le> of_nat (cb * 10 ^ (m - k)) * 10 powi em"
      using P by (simp only: mult_le_cancel_right_pos)
    have B: "of_nat (cb * 10 ^ (m - k)) * (10::rat) powi em = of_nat cb * 10 powi eb"
    proof -
      have "em = eb - int m + int k" by (simp add: em e_def ep k)
      moreover have "int (m - k) = int m - int k" using km by simp
      ultimately have "eb = em + int (m - k)" by simp
      then have "(10::rat) powi eb = 10 powi em * 10 ^ (m - k)"
        by (simp only: powi_shift)
      then show ?thesis by simp
    qed
    from A have "of_nat c' * (10::rat) powi e' \<le> of_nat cb * 10 powi eb"
      unfolding val B .
    moreover have "0 < of_nat c' * (10::rat) powi e'"
      unfolding val using rpos by simp
    ultimately show ?thesis using mul by blast
  qed
qed

lemma dec_val_zero: "dec_val (Dec s 0 e) = 0"
  by simp

lemma dec_val_pos: "0 < c \<Longrightarrow> 0 < dec_val (Dec False c e)"
  by simp

lemma build_order_amount:
  "build_order cfg data a = Inr order \<Longrightarrow> getitem order ''amount'' = Inr (PStr (str_decimal a))"
  by (auto simp: build_order_def split: sum.splits)

subsection \<open>The example runs\<close>

lemmas example_defs = example_config_def example_env_def example_pair_def answer_def
  good_audit_def good_balance_def created_def not_json_def timed_out_def example_order_def
  pair_request_def audit_request_def balance_request_def order_request_def

lemma healthy_fetch:
  "get_dexscreener_data healthy_env ''0xDEF'' [] =
     (Inr (example_pair ''0xDEF''), [pair_request ''0xDEF''])"
  by (simp add: get_dexscreener_data_eq) (simp add: healthy_env_def example_defs)

lemma healthy_blacklists:
  "check_blacklists example_config healthy_env (example_pair ''0xDEF'') s = (Inr passed, s)"
  by (simp add: check_blacklists_def io_defs example_config_def example_pair_def lower_char_def
      ascii_def)

lemma healthy_audit:
  "check_rug_pull_risk example_config healthy_env (example_pair ''0xDEF'') s =
     (Inr passed, s @ [audit_request example_config healthy_env (PStr ''0xbase'')])"
  by (simp add: check_rug_pull_risk_def io_defs less_num_def healthy_env_def example_defs
      passed_def)

lemma healthy_balance:
  "get_gmgn_balance example_config healthy_env s =
     (Inr (Dec False 1000 0), s @ [balance_request example_config])"
  by (simp add: get_gmgn_balance_eq balance_reading_def)
     (simp add: healthy_env_def example_defs decimal_of_int_def)

lemma healthy_size: "mul (Dec False 1000 0) (Dec False 5 (- 1)) = Inr (Dec False 5000 (- 1))"
  by (simp add: fix_dec_def digits.simps prec_def Etop_def Etiny_def Emax_def Emin_def)

lemma healthy_order:
  "build_order example_config (example_pair ''0xDEF'') (Dec False 5000 (- 1)) =
     Inr (example_order ''0xDEF'' ''500.0'')"
  by (simp add: build_order_def example_defs digits.simps sign_str_def)

lemma long_balance_size:
  "mul (Dec False 1000000000000000001 (- 18)) (Dec False 1 0) =
     Inr (Dec False 100000000000000000 (- 17))"
  by (simp add: fix_dec_def round_half_even_def digits.simps prec_def Etop_def Etiny_def
      Emax_def Emin_def)

lemma precise_balance:
  "get_gmgn_balance whole_config precise_env s =
     (Inr (Dec False 1000000000000000001 (- 18)), s @ [balance_request whole_config])"
  by (simp add: get_gmgn_balance_eq balance_reading_def)
     (simp add: precise_env_def whole_config_def example_defs)

lemma precise_order:
  "build_order whole_config (example_pair ''0xDEF'') (Dec False 100000000000000000 (- 17)) =
     Inr (example_order ''0xDEF'' ''1.00000000000000000'')"
  by (simp add: build_order_def whole_config_def example_defs digits.simps sign_str_def)

lemma float_balance:
  "get_gmgn_balance float_config float_env s =
     (Inr (Dec False 1000 0), s @ [balance_request float_config])"
  by (simp add: get_gmgn_balance_eq balance_reading_def)
     (simp add: float_env_def float_config_def healthy_env_def good_balance_def example_defs
        decimal_of_int_def)

lemma float_size:
  "mul (Dec False 1000 0) (Dec False 1000000000000000055511151231257827021181583404541015625 (- 55)) =
     Inr (Dec False 100000000000000006 (- 15))"
  by (simp add: fix_dec_def round_half_even_def digits.simps prec_def Etop_def Etiny_def
      Emax_def Emin_def)

lemma float_order:
  "build_order float_config (example_pair ''0xDEF'') (Dec False 100000000000000006 (- 15)) =
     Inr (example_order ''0xDEF'' ''100.000000000000006'')"
  by (simp add: build_order_def float_config_def example_defs digits.simps sign_str_def)

section \<open>The claims\<close>

text \<open>
  C1. The claim: on every pair snapshot on which a security check fails, the workflow
  returns the rejection carrying the check's reason, never an error. The program does
  otherwise. A failing verdict is the dictionary \<^verbatim>\<open>{"passed": False, "reason": ...}\<close>,
  the engine returns it as it is, and the workflow then reads its \<^verbatim>\<open>"approved"\<close> entry,
  which it does not have: the \<^verbatim>\<open>KeyError\<close> is caught and the workflow returns the error
  result with the message \<^verbatim>\<open>'approved'\<close>. What is proved: whenever the engine returns a
  failing verdict, whatever its reason, the workflow's result is that error.
\<close>

theorem failed_check_is_error:
  assumes "get_dexscreener_data w pair_address s = (Inr data, s1)"
    and "truthy data"
    and "security_analysis cfg w data s1 = (Inr (failed reason), s2)"
  shows "analyze_and_trade cfg w pair_address s = (Inr (error_result (quote ''approved'')), s2)"
  using analyze_and_trade_cases [OF assms(1) assms(3)] assms(2) by auto

text \<open>
  The spec's scenario: the pair \<^verbatim>\<open>0xABC\<close> with \<^verbatim>\<open>0xabc\<close> on the token blacklist. The
  only request is the market-data one, and the result is the error.
\<close>

theorem failed_check_is_error_witness:
  "analyze_and_trade example_config
     (example_env (answer 200 [] (Inr (example_pair ''0xABC''))) good_audit good_balance created)
     ''0xABC'' [] =
   (Inr (PDict [(''status'', PStr ''error''), (''message'', PStr (quote ''approved''))]),
    [pair_request ''0xABC''])"
proof -
  let ?w = "example_env (answer 200 [] (Inr (example_pair ''0xABC''))) good_audit good_balance created"
  have 1: "get_dexscreener_data ?w ''0xABC'' [] = (Inr (example_pair ''0xABC''), [pair_request ''0xABC''])"
    by (simp add: get_dexscreener_data_eq) (simp add: example_defs)
  have 2: "truthy (example_pair ''0xABC'')"
    by (simp add: example_pair_def)
  have 3: "security_analysis example_config ?w (example_pair ''0xABC'') [pair_request ''0xABC''] =
      (Inr (failed ''Token blacklisted''), [pair_request ''0xABC''])"
    by (simp add: security_analysis_def checks_def check_blacklists_def io_defs
        example_config_def example_pair_def lower_char_def ascii_def)
  show ?thesis
    using failed_check_is_error [OF 1 2 3] by (simp add: error_result_def)
qed

text \<open>
  C10. For every configuration, world and pair address the workflow returns an error
  result and sends no order (the POST requests in the log are those that were there
  before); the engine never returns the approval; and when the blacklist check and the
  audit check both pass, the error is the \<^verbatim>\<open>TypeError\<close> of subscripting the \<^verbatim>\<open>None\<close> that
  the liquidity stub returns.
\<close>

theorem approval_unreachable:
  "(\<exists>m s'. analyze_and_trade cfg w pair_address s = (Inr (error_result m), s') \<and>
        filter is_post s' = filter is_post s) \<and>
   fst (security_analysis cfg w data s) \<noteq> Inr approved \<and>
   (get_dexscreener_data w pair_address s = (Inr data, s1) \<and> truthy data \<and>
    check_blacklists cfg w data s1 = (Inr passed, s1) \<and>
    check_rug_pull_risk cfg w data s1 = (Inr passed, s2) \<longrightarrow>
      analyze_and_trade cfg w pair_address s =
        (Inr (error_result (quote ''NoneType'' @ '' object is not subscriptable'')), s2))"
proof (intro conjI impI)
  obtain d where d: "get_dexscreener_data w pair_address s = (Inr d, s @ [pair_request pair_address])"
    using get_dexscreener_data_eq by blast
  obtain r s' where sa: "security_analysis cfg w d (s @ [pair_request pair_address]) = (r, s')"
    and r: "(\<exists>e. r = Inl e) \<or> (\<exists>m. r = Inr (failed m))"
    and p: "filter is_post s' = filter is_post (s @ [pair_request pair_address])"
    using security_analysis_cases by blast
  show "\<exists>m s'. analyze_and_trade cfg w pair_address s = (Inr (error_result m), s') \<and>
        filter is_post s' = filter is_post s"
    using analyze_and_trade_cases [OF d sa r] p by (auto split: sum.splits)
next
  show "fst (security_analysis cfg w data s) \<noteq> Inr approved"
    using security_analysis_cases [of cfg w data s] by (auto simp: failed_def approved_def)
next
  assume "get_dexscreener_data w pair_address s = (Inr data, s1) \<and> truthy data \<and>
    check_blacklists cfg w data s1 = (Inr passed, s1) \<and>
    check_rug_pull_risk cfg w data s1 = (Inr passed, s2)"
  then show "analyze_and_trade cfg w pair_address s =
        (Inr (error_result (quote ''NoneType'' @ '' object is not subscriptable'')), s2)"
    using both_pass_then_type_error by blast
qed

theorem approval_unreachable_witness:
  "analyze_and_trade example_config healthy_env ''0xDEF'' [] =
     (Inr (error_result (quote ''NoneType'' @ '' object is not subscriptable'')),
      [pair_request ''0xDEF'', audit_request example_config healthy_env (PStr ''0xbase'')])"
  using approval_unreachable [of example_config healthy_env "''0xDEF''" "[]"
      "example_pair ''0xDEF''" "[pair_request ''0xDEF'']"
      "[pair_request ''0xDEF'', audit_request example_config healthy_env (PStr ''0xbase'')]"]
    healthy_fetch healthy_blacklists healthy_audit [of "[pair_request ''0xDEF'']"]
  by (simp add: example_pair_def)



text \<open>
  C4. The engine is the loop over the five checks in their fixed order: blacklist,
  audit, liquidity, volume, holders. For the loop over any list of checks: when the
  checks before one all pass and that one returns a verdict whose \<^verbatim>\<open>"passed"\<close> is
  false, the loop returns that very verdict (so its reason), with the request log as
  that check left it, whatever the later checks are: none of them runs. The verdict is
  not the approval. And the loop returns the approval exactly when every check of the
  list passes.
\<close>

theorem first_failure_wins:
  "security_analysis cfg w data =
     run_checks [check_blacklists cfg w, check_rug_pull_risk cfg w, check_liquidity,
                 validate_volume, analyze_holders] data \<and>
   (all_pass pre data s = Some s1 \<and> c data s1 = (Inr v, s2) \<and>
    getitem v ''passed'' = Inr p \<and> \<not> truthy p \<longrightarrow>
      run_checks (pre @ c # post) data s = (Inr v, s2) \<and> v \<noteq> approved) \<and>
   (run_checks cs data s = (Inr approved, s') \<longleftrightarrow> all_pass cs data s = Some s')"
proof (intro conjI impI)
  show "security_analysis cfg w data =
     run_checks [check_blacklists cfg w, check_rug_pull_risk cfg w, check_liquidity,
                 validate_volume, analyze_holders] data"
    by (simp add: security_analysis_def checks_def)
next
  assume a: "all_pass pre data s = Some s1 \<and> c data s1 = (Inr v, s2) \<and>
    getitem v ''passed'' = Inr p \<and> \<not> truthy p"
  then show "run_checks (pre @ c # post) data s = (Inr v, s2)"
    using run_checks_first_failure by blast
  show "v \<noteq> approved"
    using a getitem_approved_passed by auto
next
  show "run_checks cs data s = (Inr approved, s') \<longleftrightarrow> all_pass cs data s = Some s'"
    by (rule run_checks_approved_iff)
qed

text \<open>
  A pair that is blacklisted, in a world where the audit would fail too (score 50
  against 70): the reason is the blacklist's and no audit request is sent.
\<close>

theorem first_failure_wins_witness:
  "security_analysis example_config
     (example_env (answer 200 [] (Inr (example_pair ''0xABC''))) bad_audit good_balance created)
     (example_pair ''0xABC'') [] = (Inr (failed ''Token blacklisted''), [])"
proof -
  let ?w = "example_env (answer 200 [] (Inr (example_pair ''0xABC''))) bad_audit good_balance created"
  have c: "check_blacklists example_config ?w (example_pair ''0xABC'') [] =
      (Inr (failed ''Token blacklisted''), [])"
    by (simp add: check_blacklists_def io_defs example_config_def example_pair_def lower_char_def
        ascii_def)
  show ?thesis
    using first_failure_wins [where pre = "[]" and c = "check_blacklists example_config ?w"
        and cfg = example_config and w = ?w and data = "example_pair ''0xABC''" and s = "[]"
        and ?s1.0 = "[]" and ?s2.0 = "[]" and v = "failed ''Token blacklisted''"
        and p = "PBool False"
        and post = "[check_rug_pull_risk example_config ?w, check_liquidity,
                 validate_volume, analyze_holders]"] c
    by simp
qed

text \<open>
  C6. The claim: the market-data fetch returns a failure on every network error,
  malformed response or non-success HTTP status. The program never looks at the
  status: a response with status 500 and a JSON body is returned as the pair data.
\<close>

theorem error_status_is_data:
  "get_dexscreener_data
     (example_env (answer 500 ''Internal Server Error'' (Inr (example_pair ''0xDEF'')))
        good_audit good_balance created) ''0xDEF'' [] =
   (Inr (PDict [(''pairAddress'', PStr ''0xDEF''),
                (''baseToken'', PDict [(''address'', PStr ''0xbase'')]),
                (''quoteToken'', PDict [(''address'', PStr ''0xquote'')]),
                (''priceUsd'', PStr ''1.25'')]), [pair_request ''0xDEF''])"
  by (simp add: get_dexscreener_data_eq) (simp add: example_defs)

text \<open>
  C6 as the program has it. The fetch never raises and sends exactly the one request.
  It returns \<^verbatim>\<open>None\<close> when the request raises and when the body is not JSON; then the
  workflow returns the error \<^verbatim>\<open>Data fetch failed\<close> and the log holds the fetch alone, for
  every configuration: no check has run and the audit provider was not asked. A body
  that is JSON is returned whatever the status.
\<close>

theorem fetch_failure:
  "(\<exists>v. get_dexscreener_data w pair_address s = (Inr v, s @ [pair_request pair_address])) \<and>
   (http w (pair_request pair_address) = Inl e \<longrightarrow>
      get_dexscreener_data w pair_address s = (Inr PNone, s @ [pair_request pair_address]) \<and>
      analyze_and_trade cfg w pair_address s =
        (Inr (error_result ''Data fetch failed''), s @ [pair_request pair_address])) \<and>
   (http w (pair_request pair_address) = Inr r \<and> body_json r = Inl e \<longrightarrow>
      get_dexscreener_data w pair_address s = (Inr PNone, s @ [pair_request pair_address]) \<and>
      analyze_and_trade cfg w pair_address s =
        (Inr (error_result ''Data fetch failed''), s @ [pair_request pair_address])) \<and>
   (http w (pair_request pair_address) = Inr r \<and> body_json r = Inr d \<longrightarrow>
      get_dexscreener_data w pair_address s = (Inr d, s @ [pair_request pair_address]))"
proof -
  have none: "analyze_and_trade cfg w pair_address s =
        (Inr (error_result ''Data fetch failed''), s @ [pair_request pair_address])"
    if "get_dexscreener_data w pair_address s = (Inr PNone, s @ [pair_request pair_address])"
    using that by (simp add: analyze_and_trade_def io_defs)
  show ?thesis
    using none by (auto simp: get_dexscreener_data_eq)
qed

theorem fetch_failure_witness:
  "analyze_and_trade example_config (example_env timed_out good_audit good_balance created)
     ''0xDEF'' [] = (Inr (error_result ''Data fetch failed''), [pair_request ''0xDEF''])"
  using fetch_failure [of "example_env timed_out good_audit good_balance created" "''0xDEF''" "[]"
      "Raised ''ConnectTimeout'' ''connection timed out''" example_config]
  by (simp add: example_defs)

text \<open>
  C5. The claim: every provider error, missing fields among them, ends in a failing
  verdict. With a threshold of zero, an audit that says \<^verbatim>\<open>GOOD\<close> and has no score at all
  passes: the missing score is read as 0, which is not below 0.
\<close>

theorem missing_score_passes:
  "check_rug_pull_risk lax_config
     (example_env (answer 200 [] (Inr (example_pair ''0xDEF''))) scoreless_audit good_balance created)
     (example_pair ''0xDEF'') [] =
   (Inr (PDict [(''passed'', PBool True)]), [Get ''https://api.rugcheck.xyz/v1/audit/0xbase'' [] 10])"
  by (simp add: check_rug_pull_risk_def io_defs less_num_def lax_config_def scoreless_audit_def
      example_defs passed_def)

text \<open>
  C5 as the program has it, for the check itself. The check returns a verdict in every
  case, passing or failing: no exception leaves it. Without a base token address the
  verdict is \<^verbatim>\<open>Audit verification error\<close> and nothing is sent. Otherwise the one audit
  request is sent, and: a request that raises, a body that is not JSON and an answer
  that is not a dictionary give \<^verbatim>\<open>Audit verification error\<close>; a status other than
  \<^verbatim>\<open>GOOD\<close> (or none) gives \<^verbatim>\<open>Failed security audit\<close>. With the status \<^verbatim>\<open>GOOD\<close>:
  a score of a numeric type (integer, float, boolean) that compares below the minimum
  gives \<^verbatim>\<open>Low audit score:\<close> followed by the score, a reason that is not the error's;
  a score of a numeric type that does not compare below the minimum passes, and so
  does the float NaN, which compares below nothing; a score of any other type (a
  string, null, a list, a dictionary) gives \<^verbatim>\<open>Audit verification error\<close>; a missing
  score is read as 0, which gives \<^verbatim>\<open>Audit verification error\<close> when the minimum is
  above zero and passes when it is not. Last, the check passes in these cases only:
  exactly when the audit was answered with the status \<^verbatim>\<open>GOOD\<close> and the score, 0 when
  missing, is of a numeric type and does not compare below the minimum.
\<close>

theorem audit_fail_closed:
  "(\<exists>v s'. check_rug_pull_risk cfg w data s = (Inr v, s') \<and>
      (v = passed \<or> (\<exists>m. v = failed m))) \<and>
   (getitem data ''baseToken'' = Inl e \<or>
    (getitem data ''baseToken'' = Inr base \<and> getitem base ''address'' = Inl e) \<longrightarrow>
      check_rug_pull_risk cfg w data s = (Inr (failed ''Audit verification error''), s)) \<and>
   (getitem data ''baseToken'' = Inr base \<and> getitem base ''address'' = Inr address \<longrightarrow>
     (audit_answer cfg w address = Inl e \<longrightarrow>
        check_rug_pull_risk cfg w data s =
          (Inr (failed ''Audit verification error''), s @ [audit_request cfg w address])) \<and>
     (audit_answer cfg w address = Inr audit \<longrightarrow>
        (get_default audit ''auditStatus'' PNone = Inl e \<longrightarrow>
           check_rug_pull_risk cfg w data s =
             (Inr (failed ''Audit verification error''), s @ [audit_request cfg w address])) \<and>
        (get_default audit ''auditStatus'' PNone = Inr status \<and> status \<noteq> PStr ''GOOD'' \<longrightarrow>
           check_rug_pull_risk cfg w data s =
             (Inr (failed ''Failed security audit''), s @ [audit_request cfg w address])) \<and>
        (get_default audit ''auditStatus'' PNone = Inr (PStr ''GOOD'') \<longrightarrow>
           (getitem audit ''auditScore'' = Inr score \<and> num_of score = Some x \<and>
            fval_less x (rugcheck_min_score cfg) \<longrightarrow>
              check_rug_pull_risk cfg w data s =
                (Inr (failed (''Low audit score: '' @ format_val w score)),
                 s @ [audit_request cfg w address]) \<and>
              ''Low audit score: '' @ format_val w score \<noteq> ''Audit verification error'') \<and>
           (getitem audit ''auditScore'' = Inr score \<and> num_of score = Some x \<and>
            \<not> fval_less x (rugcheck_min_score cfg) \<longrightarrow>
              check_rug_pull_risk cfg w data s =
                (Inr passed, s @ [audit_request cfg w address])) \<and>
           (getitem audit ''auditScore'' = Inr score \<and> num_of score = None \<longrightarrow>
              check_rug_pull_risk cfg w data s =
                (Inr (failed ''Audit verification error''), s @ [audit_request cfg w address])) \<and>
           (getitem audit ''auditScore'' = Inl e \<and> fval_less (FNum 0) (rugcheck_min_score cfg) \<longrightarrow>
              check_rug_pull_risk cfg w data s =
                (Inr (failed ''Audit verification error''), s @ [audit_request cfg w address])) \<and>
           (getitem audit ''auditScore'' = Inl e \<and>
            \<not> fval_less (FNum 0) (rugcheck_min_score cfg) \<longrightarrow>
              check_rug_pull_risk cfg w data s =
                (Inr passed, s @ [audit_request cfg w address]))))) \<and>
   (check_rug_pull_risk cfg w data s = (Inr passed, s') \<longleftrightarrow>
     (\<exists>base address audit score x.
        getitem data ''baseToken'' = Inr base \<and> getitem base ''address'' = Inr address \<and>
        audit_answer cfg w address = Inr audit \<and>
        get_default audit ''auditStatus'' PNone = Inr (PStr ''GOOD'') \<and>
        get_default audit ''auditScore'' (PInt 0) = Inr score \<and> num_of score = Some x \<and>
        \<not> fval_less x (rugcheck_min_score cfg) \<and> s' = s @ [audit_request cfg w address]))"
proof (intro conjI impI)
  show "\<exists>v s'. check_rug_pull_risk cfg w data s = (Inr v, s') \<and>
      (v = passed \<or> (\<exists>m. v = failed m))"
    using check_rug_pull_risk_cases [of cfg w data s] by blast
next
  assume "getitem data ''baseToken'' = Inl e \<or>
    (getitem data ''baseToken'' = Inr base \<and> getitem base ''address'' = Inl e)"
  then show "check_rug_pull_risk cfg w data s = (Inr (failed ''Audit verification error''), s)"
    by (rule audit_not_reached)
next
  show "check_rug_pull_risk cfg w data s = (Inr passed, s') \<longleftrightarrow>
     (\<exists>base address audit score x.
        getitem data ''baseToken'' = Inr base \<and> getitem base ''address'' = Inr address \<and>
        audit_answer cfg w address = Inr audit \<and>
        get_default audit ''auditStatus'' PNone = Inr (PStr ''GOOD'') \<and>
        get_default audit ''auditScore'' (PInt 0) = Inr score \<and> num_of score = Some x \<and>
        \<not> fval_less x (rugcheck_min_score cfg) \<and> s' = s @ [audit_request cfg w address])"
    by (rule audit_passes_iff)
next
  assume b: "getitem data ''baseToken'' = Inr base \<and> getitem base ''address'' = Inr address"
  note eq = audit_reached [of data base address cfg w s]
  {
    assume "audit_answer cfg w address = Inl e"
    then show "check_rug_pull_risk cfg w data s =
          (Inr (failed ''Audit verification error''), s @ [audit_request cfg w address])"
      using b by (auto simp: eq audit_answer_def split: sum.splits)
  }
  assume a: "audit_answer cfg w address = Inr audit"
  then obtain r where r: "http w (audit_request cfg w address) = Inr r" "body_json r = Inr audit"
    by (auto simp: audit_answer_def split: sum.splits)
  {
    assume "get_default audit ''auditStatus'' PNone = Inl e"
    then show "check_rug_pull_risk cfg w data s =
             (Inr (failed ''Audit verification error''), s @ [audit_request cfg w address])"
      using b r by (simp add: eq)
  }
  {
    assume "get_default audit ''auditStatus'' PNone = Inr status \<and> status \<noteq> PStr ''GOOD''"
    then show "check_rug_pull_risk cfg w data s =
             (Inr (failed ''Failed security audit''), s @ [audit_request cfg w address])"
      using b r by (simp add: eq)
  }
  assume g: "get_default audit ''auditStatus'' PNone = Inr (PStr ''GOOD'')"
  {
    assume "getitem audit ''auditScore'' = Inr score \<and> num_of score = Some x \<and>
            fval_less x (rugcheck_min_score cfg)"
    then show "check_rug_pull_risk cfg w data s =
                (Inr (failed (''Low audit score: '' @ format_val w score)),
                 s @ [audit_request cfg w address])"
      using b r g by (simp add: eq getitem_get_default)
    show "''Low audit score: '' @ format_val w score \<noteq> ''Audit verification error''"
      by simp
  }
  {
    assume "getitem audit ''auditScore'' = Inr score \<and> num_of score = Some x \<and>
            \<not> fval_less x (rugcheck_min_score cfg)"
    then show "check_rug_pull_risk cfg w data s =
                (Inr passed, s @ [audit_request cfg w address])"
      using b r g by (simp add: eq getitem_get_default)
  }
  {
    assume "getitem audit ''auditScore'' = Inr score \<and> num_of score = None"
    then show "check_rug_pull_risk cfg w data s =
                (Inr (failed ''Audit verification error''), s @ [audit_request cfg w address])"
      using b r g by (simp add: eq getitem_get_default)
  }
  {
    assume "getitem audit ''auditScore'' = Inl e \<and> fval_less (FNum 0) (rugcheck_min_score cfg)"
    then show "check_rug_pull_risk cfg w data s =
                (Inr (failed ''Audit verification error''), s @ [audit_request cfg w address])"
      using b r g get_default_missing [of audit "''auditScore''" e "''auditStatus''" PNone "PStr ''GOOD''" "PInt 0"]
      by (simp add: eq)
  }
  {
    assume "getitem audit ''auditScore'' = Inl e \<and>
            \<not> fval_less (FNum 0) (rugcheck_min_score cfg)"
    then show "check_rug_pull_risk cfg w data s =
                (Inr passed, s @ [audit_request cfg w address])"
      using b r g get_default_missing [of audit "''auditScore''" e "''auditStatus''" PNone "PStr ''GOOD''" "PInt 0"]
      by (simp add: eq)
  }
qed

text \<open>
  The spec's two scenarios, score 50 against 70 and a provider that times out; then
  the score NaN against 70 and the score 90 against 70, which both pass.
\<close>

theorem audit_fail_closed_witness:
  "check_rug_pull_risk example_config
     (example_env (answer 200 [] (Inr (example_pair ''0xDEF''))) bad_audit good_balance created)
     (example_pair ''0xDEF'') [] =
     (Inr (failed ''Low audit score: 50''), [Get ''https://api.rugcheck.xyz/v1/audit/0xbase'' [] 10]) \<and>
   check_rug_pull_risk example_config
     (example_env (answer 200 [] (Inr (example_pair ''0xDEF''))) timed_out good_balance created)
     (example_pair ''0xDEF'') [] =
     (Inr (failed ''Audit verification error''), [Get ''https://api.rugcheck.xyz/v1/audit/0xbase'' [] 10]) \<and>
   check_rug_pull_risk example_config
     (example_env (answer 200 [] (Inr (example_pair ''0xDEF''))) nan_audit good_balance created)
     (example_pair ''0xDEF'') [] =
     (Inr passed, [Get ''https://api.rugcheck.xyz/v1/audit/0xbase'' [] 10]) \<and>
   check_rug_pull_risk example_config healthy_env (example_pair ''0xDEF'') [] =
     (Inr passed, [Get ''https://api.rugcheck.xyz/v1/audit/0xbase'' [] 10])"
proof -
  let ?w1 = "example_env (answer 200 [] (Inr (example_pair ''0xDEF''))) bad_audit good_balance created"
  let ?w2 = "example_env (answer 200 [] (Inr (example_pair ''0xDEF''))) timed_out good_balance created"
  let ?w3 = "example_env (answer 200 [] (Inr (example_pair ''0xDEF''))) nan_audit good_balance created"
  let ?a = "PDict [(''auditStatus'', PStr ''GOOD''), (''auditScore'', PInt 50)]"
  let ?n = "PDict [(''auditStatus'', PStr ''GOOD''), (''auditScore'', PFloat FNaN ''nan'')]"
  let ?g = "PDict [(''auditStatus'', PStr ''GOOD''), (''auditScore'', PInt 90)]"
  have 1: "check_rug_pull_risk example_config ?w1 (example_pair ''0xDEF'') [] =
     (Inr (failed ''Low audit score: 50''), [Get ''https://api.rugcheck.xyz/v1/audit/0xbase'' [] 10])"
    using audit_fail_closed [where data = "example_pair ''0xDEF''"
        and base = "PDict [(''address'', PStr ''0xbase'')]" and cfg = example_config
        and w = ?w1 and s = "[]" and address = "PStr ''0xbase''" and audit = ?a
        and score = "PInt 50" and x = "FNum 50"]
    by (simp add: audit_answer_def bad_audit_def example_defs str_int_def digits.simps)
  have 2: "check_rug_pull_risk example_config ?w2 (example_pair ''0xDEF'') [] =
     (Inr (failed ''Audit verification error''), [Get ''https://api.rugcheck.xyz/v1/audit/0xbase'' [] 10])"
    using audit_fail_closed [where data = "example_pair ''0xDEF''"
        and e = "Raised ''ConnectTimeout'' ''connection timed out''"
        and base = "PDict [(''address'', PStr ''0xbase'')]" and cfg = example_config
        and w = ?w2 and s = "[]" and address = "PStr ''0xbase''"]
    by (simp add: audit_answer_def example_defs)
  have 3: "check_rug_pull_risk example_config ?w3 (example_pair ''0xDEF'') [] =
     (Inr passed, [Get ''https://api.rugcheck.xyz/v1/audit/0xbase'' [] 10])"
    using audit_fail_closed [where data = "example_pair ''0xDEF''"
        and base = "PDict [(''address'', PStr ''0xbase'')]" and cfg = example_config
        and w = ?w3 and s = "[]" and address = "PStr ''0xbase''" and audit = ?n
        and score = "PFloat FNaN ''nan''" and x = FNaN]
    by (simp add: audit_answer_def nan_audit_def example_defs)
  have 4: "check_rug_pull_risk example_config healthy_env (example_pair ''0xDEF'') [] =
     (Inr passed, [Get ''https://api.rugcheck.xyz/v1/audit/0xbase'' [] 10])"
    using audit_fail_closed [where data = "example_pair ''0xDEF''"
        and base = "PDict [(''address'', PStr ''0xbase'')]" and cfg = example_config
        and w = healthy_env and s = "[]" and address = "PStr ''0xbase''" and audit = ?g
        and score = "PInt 90" and x = "FNum 90"]
    by (simp add: audit_answer_def healthy_env_def good_audit_def example_defs)
  show ?thesis using 1 2 3 4 by simp
qed

text \<open>
  C8. The claim: the created status maps to the success result. A response with
  status 201 whose body is not JSON (an empty body, say) gives the error result with
  the decoder's message, after the order was sent.
\<close>

theorem created_without_json_is_error:
  "execute_gmgn_order example_config
     (example_env (answer 200 [] (Inr (example_pair ''0xDEF''))) good_audit good_balance
        (answer 201 [] not_json))
     (example_pair ''0xDEF'') [] =
   (Inr (PDict [(''status'', PStr ''error''),
                (''message'', PStr ''Expecting value: line 1 column 1 (char 0)'')]),
    [balance_request example_config,
     order_request example_config (example_order ''0xDEF'' ''500.0'')])"
  by (simp add: execute_gmgn_order_def get_gmgn_balance_def build_order_def io_defs
      example_defs decimal_of_int_def fix_dec_def digits.simps prec_def Etop_def Etiny_def
      Emax_def Emin_def sign_str_def error_result_def)

text \<open>
  C8 as the program has it. A call sends at most one order, and never twice. Once the
  balance is read, the percentage converted, the size computed and the order built,
  it sends exactly that order, right after the balance request, and: a request that
  raises gives the error with the exception's text; status 201 with a JSON body gives
  the success result with that body; status 201 with a body that is not JSON gives the
  error with the decoder's text; any other status gives the error with the response
  text.
\<close>

theorem single_submission:
  "(\<exists>v s'. execute_gmgn_order cfg w data s = (Inr v, s') \<and>
      (filter is_post s' = filter is_post s \<or>
       (\<exists>order. filter is_post s' = filter is_post s @ [order_request cfg order]))) \<and>
   (get_gmgn_balance cfg w s = (Inr balance, s1) \<and>
    Decimal w (position_size_pct cfg) = Inr pct \<and> mul balance pct = Inr amount \<and>
    build_order cfg data amount = Inr order \<longrightarrow>
      snd (execute_gmgn_order cfg w data s) = s1 @ [order_request cfg order] \<and>
      (http w (order_request cfg order) = Inl e \<longrightarrow>
         fst (execute_gmgn_order cfg w data s) = Inr (error_result (str_exn e))) \<and>
      (http w (order_request cfg order) = Inr r \<and> status_code r = 201 \<and>
       body_json r = Inr confirmation \<longrightarrow>
         fst (execute_gmgn_order cfg w data s) = Inr (success_result confirmation)) \<and>
      (http w (order_request cfg order) = Inr r \<and> status_code r = 201 \<and>
       body_json r = Inl e \<longrightarrow>
         fst (execute_gmgn_order cfg w data s) = Inr (error_result (str_exn e))) \<and>
      (http w (order_request cfg order) = Inr r \<and> status_code r \<noteq> 201 \<longrightarrow>
         fst (execute_gmgn_order cfg w data s) = Inr (error_result (body_text r))))"
proof (intro conjI impI)
  show "\<exists>v s'. execute_gmgn_order cfg w data s = (Inr v, s') \<and>
      (filter is_post s' = filter is_post s \<or>
       (\<exists>order. filter is_post s' = filter is_post s @ [order_request cfg order]))"
    using execute_cases [of cfg w data s] by auto
next
  assume a: "get_gmgn_balance cfg w s = (Inr balance, s1) \<and>
    Decimal w (position_size_pct cfg) = Inr pct \<and> mul balance pct = Inr amount \<and>
    build_order cfg data amount = Inr order"
  then have eq: "execute_gmgn_order cfg w data s =
     (Inr (case http w (order_request cfg order) of
             Inl e \<Rightarrow> error_result (str_exn e)
           | Inr r \<Rightarrow>
               if status_code r = 201 then
                 (case body_json r of
                    Inl e \<Rightarrow> error_result (str_exn e)
                  | Inr confirmation \<Rightarrow> success_result confirmation)
               else error_result (body_text r)),
      s1 @ [order_request cfg order])"
    using execute_sent by blast
  show "snd (execute_gmgn_order cfg w data s) = s1 @ [order_request cfg order]"
    by (simp add: eq)
  {
    assume "http w (order_request cfg order) = Inl e"
    then show "fst (execute_gmgn_order cfg w data s) = Inr (error_result (str_exn e))"
      by (simp add: eq)
  }
  {
    assume "http w (order_request cfg order) = Inr r \<and> status_code r = 201 \<and>
       body_json r = Inr confirmation"
    then show "fst (execute_gmgn_order cfg w data s) = Inr (success_result confirmation)"
      by (simp add: eq)
  }
  {
    assume "http w (order_request cfg order) = Inr r \<and> status_code r = 201 \<and>
       body_json r = Inl e"
    then show "fst (execute_gmgn_order cfg w data s) = Inr (error_result (str_exn e))"
      by (simp add: eq)
  }
  {
    assume "http w (order_request cfg order) = Inr r \<and> status_code r \<noteq> 201"
    then show "fst (execute_gmgn_order cfg w data s) = Inr (error_result (body_text r))"
      by (simp add: eq)
  }
qed

theorem single_submission_witness:
  "execute_gmgn_order example_config healthy_env (example_pair ''0xDEF'') [] =
     (Inr (success_result (PDict [(''orderId'', PStr ''42'')])),
      [balance_request example_config,
       order_request example_config (example_order ''0xDEF'' ''500.0'')])"
proof -
  have p: "Decimal healthy_env (position_size_pct example_config) = Inr (Dec False 5 (- 1))"
    by (simp add: healthy_env_def example_defs)
  have h: "http healthy_env (order_request example_config (example_order ''0xDEF'' ''500.0'')) =
      Inr \<lparr>status_code = 201, body_text = [], body_json = Inr (PDict [(''orderId'', PStr ''42'')])\<rparr>"
    by (simp add: healthy_env_def example_defs)
  show ?thesis
    using single_submission [of example_config healthy_env "example_pair ''0xDEF''" "[]"
        "Dec False 1000 0" "[balance_request example_config]" "Dec False 5 (- 1)"
        "Dec False 5000 (- 1)" "example_order ''0xDEF'' ''500.0''" _
        "\<lparr>status_code = 201, body_text = [], body_json = Inr (PDict [(''orderId'', PStr ''42'')])\<rparr>"
        "PDict [(''orderId'', PStr ''42'')]"]
      healthy_balance [of "[]"] healthy_size healthy_order p h
    by (simp add: prod_eq_iff)
qed

text \<open>
  C9. The claim: for every balance above zero and every percentage in (0, 1] the
  position size is the product exactly, with no drift beyond the configured precision.
  The position size is \<^verbatim>\<open>balance * Decimal(pct)\<close> in a context of 18 digits whose
  smallest exponent is -1000016. The balance \<^verbatim>\<open>1E-1000016\<close> and the percentage \<^verbatim>\<open>0.5\<close>
  give the size zero, though their product is not zero.
\<close>

theorem tiny_balance_rounds_to_zero:
  "mul (Dec False 1 (- 1000016)) (Dec False 5 (- 1)) = Inr (Dec False 0 (- 1000016)) \<and>
   dec_val (Dec False 0 (- 1000016)) = 0 \<and>
   0 < dec_val (Dec False 1 (- 1000016)) * dec_val (Dec False 5 (- 1))"
proof (intro conjI)
  show "mul (Dec False 1 (- 1000016)) (Dec False 5 (- 1)) = Inr (Dec False 0 (- 1000016))"
    by (simp add: fix_dec_def round_half_even_def digits.simps prec_def Etop_def Etiny_def
        Emax_def Emin_def)
  show "dec_val (Dec False 0 (- 1000016)) = 0"
    by (rule dec_val_zero)
  show "0 < dec_val (Dec False 1 (- 1000016)) * dec_val (Dec False 5 (- 1))"
    by (rule mult_pos_pos; rule dec_val_pos; simp)
qed

text \<open>
  C9 as the program has it. The balance is the decimal read from the venue and the
  percentage is the decimal that \<^verbatim>\<open>Decimal(position_size_pct)\<close> returns for the configured
  value, whatever the library makes of it (of a YAML float it makes the float written
  out in full, not its literal, as in the last example run below). For a balance and a
  percentage that are finite and above zero, with coefficients \<open>cb\<close> and \<open>cp\<close> and
  exponents \<open>eb\<close> and \<open>ep\<close>:

  \<^item> when \<open>cb * cp\<close> has at most 18 digits and \<open>eb + ep\<close> lies between \<open>Etiny\<close> and
    \<open>Etop\<close>, the position size is the product, exactly;
  \<^item> whenever the number of digits of \<open>cb * cp\<close> plus \<open>eb + ep\<close> is at most \<open>Emax\<close> (the
    product's adjusted exponent is below \<open>Emax\<close>) there is a position size: no overflow
    is raised;
  \<^item> every position size has a coefficient of at most 18 digits and is a nearest such
    decimal to the product at its own exponent: it differs from the product by at most
    half a unit of its last digit, and when by exactly half a unit, its last digit is
    even (ties go to even). It is the product unchanged, or it has all 18 digits, or
    its exponent is \<open>Etiny\<close>: rounding takes place at 18 digits or at the smallest
    exponent, and nowhere else;
  \<^item> the order that is sent carries the position size, printed, as its amount.
\<close>

theorem position_size_rounding:
  "get_gmgn_balance cfg w s = (Inr (Dec False cb eb), s1) \<and>
   Decimal w (position_size_pct cfg) = Inr (Dec False cp ep) \<and> 0 < cb \<and> 0 < cp \<longrightarrow>
     (cb * cp < 10 ^ 18 \<and> Etiny \<le> eb + ep \<and> eb + ep \<le> Etop \<longrightarrow>
        mul (Dec False cb eb) (Dec False cp ep) = Inr (Dec False (cb * cp) (eb + ep)) \<and>
        dec_val (Dec False (cb * cp) (eb + ep)) =
          dec_val (Dec False cb eb) * dec_val (Dec False cp ep)) \<and>
     (int (length (digits (cb * cp))) + (eb + ep) \<le> Emax \<longrightarrow>
        (\<exists>r. mul (Dec False cb eb) (Dec False cp ep) = Inr r)) \<and>
     (mul (Dec False cb eb) (Dec False cp ep) = Inr r \<longrightarrow>
        (\<exists>c e. r = Dec False c e \<and> c < 10 ^ 18 \<and>
           2 * \<bar>dec_val r - dec_val (Dec False cb eb) * dec_val (Dec False cp ep)\<bar> \<le> 10 powi e \<and>
           (2 * \<bar>dec_val r - dec_val (Dec False cb eb) * dec_val (Dec False cp ep)\<bar> = 10 powi e
              \<longrightarrow> even c) \<and>
           (r = Dec False (cb * cp) (eb + ep) \<or> 10 ^ 17 \<le> c \<or> e = Etiny)) \<and>
        (build_order cfg data r = Inr order \<longrightarrow>
           snd (execute_gmgn_order cfg w data s) = s1 @ [order_request cfg order] \<and>
           getitem order ''amount'' = Inr (PStr (str_decimal r))))"
proof (intro conjI impI)
  assume p: "get_gmgn_balance cfg w s = (Inr (Dec False cb eb), s1) \<and>
   Decimal w (position_size_pct cfg) = Inr (Dec False cp ep) \<and> 0 < cb \<and> 0 < cp"
  then have pos: "0 < cb * cp" by simp
  have pv: "dec_val (Dec False cb eb) * dec_val (Dec False cp ep) =
      of_nat (cb * cp) * (10::rat) powi (eb + ep)"
    by (simp add: power_int_add)
  {
    assume a: "cb * cp < 10 ^ 18 \<and> Etiny \<le> eb + ep \<and> eb + ep \<le> Etop"
    show "mul (Dec False cb eb) (Dec False cp ep) = Inr (Dec False (cb * cp) (eb + ep))"
      using a pos fix_dec_exact [of "cb * cp" "eb + ep" False] by simp
    show "dec_val (Dec False (cb * cp) (eb + ep)) =
          dec_val (Dec False cb eb) * dec_val (Dec False cp ep)"
      by (simp add: power_int_add)
  }
  {
    assume "int (length (digits (cb * cp))) + (eb + ep) \<le> Emax"
    then show "\<exists>r. mul (Dec False cb eb) (Dec False cp ep) = Inr r"
      using fix_dec_returns [of "cb * cp" "eb + ep" False] by simp
  }
  assume m: "mul (Dec False cb eb) (Dec False cp ep) = Inr r"
  then have f: "fix_dec False (cb * cp) (eb + ep) = Inr r" by simp
  from fix_dec_nearest_even [OF pos f] obtain c e where r: "r = Dec False c e"
    and c: "c < 10 ^ 18"
    and err: "2 * \<bar>of_nat c * 10 powi e - of_nat (cb * cp) * (10::rat) powi (eb + ep)\<bar> \<le> 10 powi e"
    and tie: "2 * \<bar>of_nat c * 10 powi e - of_nat (cb * cp) * (10::rat) powi (eb + ep)\<bar> = 10 powi e
        \<longrightarrow> even c"
    and full: "r = Dec False (cb * cp) (eb + ep) \<or> 10 ^ 17 \<le> c \<or> e = Etiny"
    by blast
  have rv: "dec_val r = of_nat c * 10 powi e"
    using r by simp
  show "\<exists>c e. r = Dec False c e \<and> c < 10 ^ 18 \<and>
           2 * \<bar>dec_val r - dec_val (Dec False cb eb) * dec_val (Dec False cp ep)\<bar> \<le> 10 powi e \<and>
           (2 * \<bar>dec_val r - dec_val (Dec False cb eb) * dec_val (Dec False cp ep)\<bar> = 10 powi e
              \<longrightarrow> even c) \<and>
           (r = Dec False (cb * cp) (eb + ep) \<or> 10 ^ 17 \<le> c \<or> e = Etiny)"
    unfolding pv rv using r c err tie full by blast
  assume o: "build_order cfg data r = Inr order"
  show "snd (execute_gmgn_order cfg w data s) = s1 @ [order_request cfg order]"
    using execute_sent [of cfg w s "Dec False cb eb" s1 "Dec False cp ep" r data order] p m o
    by simp
  show "getitem order ''amount'' = Inr (PStr (str_decimal r))"
    using o by (rule build_order_amount)
qed
text \<open>
  1000 at 50 percent is 500.0 exactly; a balance of 19 digits is rounded in the 18th;
  1000 at the float 0.1 is 100.000000000000006.
\<close>

theorem position_size_rounding_witness:
  "mul (Dec False 1000 0) (Dec False 5 (- 1)) = Inr (Dec False 5000 (- 1)) \<and>
   dec_val (Dec False 5000 (- 1)) = dec_val (Dec False 1000 0) * dec_val (Dec False 5 (- 1)) \<and>
   snd (execute_gmgn_order example_config healthy_env (example_pair ''0xDEF'') []) =
     [balance_request example_config,
      order_request example_config (example_order ''0xDEF'' ''500.0'')] \<and>
   mul (Dec False 1000000000000000001 (- 18)) (Dec False 1 0) =
     Inr (Dec False 100000000000000000 (- 17)) \<and>
   2 * \<bar>dec_val (Dec False 100000000000000000 (- 17)) -
        dec_val (Dec False 1000000000000000001 (- 18)) * dec_val (Dec False 1 0)\<bar> \<le> 10 powi (- 17) \<and>
   snd (execute_gmgn_order whole_config precise_env (example_pair ''0xDEF'') []) =
     [balance_request whole_config,
      order_request whole_config (example_order ''0xDEF'' ''1.00000000000000000'')] \<and>
   mul (Dec False 1000 0)
       (Dec False 1000000000000000055511151231257827021181583404541015625 (- 55)) =
     Inr (Dec False 100000000000000006 (- 15)) \<and>
   snd (execute_gmgn_order float_config float_env (example_pair ''0xDEF'') []) =
     [balance_request float_config,
      order_request float_config (example_order ''0xDEF'' ''100.000000000000006'')]"
proof -
  have p: "Decimal healthy_env (position_size_pct example_config) = Inr (Dec False 5 (- 1))"
    by (simp add: healthy_env_def example_defs)
  have 1: "mul (Dec False 1000 0) (Dec False 5 (- 1)) = Inr (Dec False 5000 (- 1)) \<and>
     dec_val (Dec False 5000 (- 1)) = dec_val (Dec False 1000 0) * dec_val (Dec False 5 (- 1)) \<and>
     snd (execute_gmgn_order example_config healthy_env (example_pair ''0xDEF'') []) =
       [balance_request example_config,
        order_request example_config (example_order ''0xDEF'' ''500.0'')]"
    using position_size_rounding [where cfg = example_config and w = healthy_env
        and s = "[]" and cb = 1000 and eb = 0 and ?s1.0 = "[balance_request example_config]"
        and cp = 5 and ep = "- 1" and r = "Dec False 5000 (- 1)"
        and data = "example_pair ''0xDEF''" and order = "example_order ''0xDEF'' ''500.0''"]
      healthy_balance [of "[]"] p healthy_size healthy_order
    by (simp add: Etiny_def Etop_def Emax_def Emin_def prec_def)
  have q: "Decimal precise_env (position_size_pct whole_config) = Inr (Dec False 1 0)"
    by (simp add: whole_config_def decimal_of_int_def)
  have 2: "2 * \<bar>dec_val (Dec False 100000000000000000 (- 17)) -
        dec_val (Dec False 1000000000000000001 (- 18)) * dec_val (Dec False 1 0)\<bar> \<le> 10 powi (- 17) \<and>
     snd (execute_gmgn_order whole_config precise_env (example_pair ''0xDEF'') []) =
       [balance_request whole_config,
        order_request whole_config (example_order ''0xDEF'' ''1.00000000000000000'')]"
    using position_size_rounding [where cfg = whole_config and w = precise_env
        and s = "[]" and cb = 1000000000000000001 and eb = "- 18"
        and ?s1.0 = "[balance_request whole_config]"
        and cp = 1 and ep = 0 and r = "Dec False 100000000000000000 (- 17)"
        and data = "example_pair ''0xDEF''"
        and order = "example_order ''0xDEF'' ''1.00000000000000000''"]
      precise_balance [of "[]"] q long_balance_size precise_order
    by simp
  have f: "Decimal float_env (position_size_pct float_config) =
      Inr (Dec False 1000000000000000055511151231257827021181583404541015625 (- 55))"
    by (simp add: float_config_def float_env_def)
  have 3: "snd (execute_gmgn_order float_config float_env (example_pair ''0xDEF'') []) =
       [balance_request float_config,
        order_request float_config (example_order ''0xDEF'' ''100.000000000000006'')]"
    using position_size_rounding [where cfg = float_config and w = float_env
        and s = "[]" and cb = 1000 and eb = 0
        and ?s1.0 = "[balance_request float_config]"
        and cp = 1000000000000000055511151231257827021181583404541015625 and ep = "- 55"
        and r = "Dec False 100000000000000006 (- 15)"
        and data = "example_pair ''0xDEF''"
        and order = "example_order ''0xDEF'' ''100.000000000000006''"]
      float_balance [of "[]"] f float_size float_order
    by simp
  show ?thesis using 1 2 3 long_balance_size float_size by blast
qed
text \<open>
  C2. The claim: sizing rejects a percentage outside (0, 1] and a balance that is not
  positive, and a submitted amount is positive and within the balance. The program
  has no such check anywhere. With \<^verbatim>\<open>position_size_pct: 2\<close> and a balance of 1000, the
  order goes out with the amount 2000 and the venue's confirmation comes back as a
  success.
\<close>

theorem oversized_order_is_sent:
  "execute_gmgn_order greedy_config healthy_env (example_pair ''0xDEF'') [] =
   (Inr (PDict [(''status'', PStr ''success''), (''order'', PDict [(''orderId'', PStr ''42'')])]),
    [Get ''https://api.gmgn.ai/account/balance'' [(''X-API-KEY'', ''secret'')] 5,
     Post ''https://api.gmgn.ai/orders'' [(''X-API-KEY'', ''secret'')]
       (PDict [(''pair'', PStr ''0xDEF''), (''baseToken'', PStr ''0xbase''),
               (''quoteToken'', PStr ''0xquote''), (''amount'', PStr ''2000''),
               (''price'', PStr ''1.25''), (''side'', PStr ''BUY''), (''leverage'', PInt 1),
               (''stopLoss'', PInt 5), (''takeProfit'', PInt 10)]) 10])"
  by (simp add: execute_gmgn_order_def get_gmgn_balance_def build_order_def io_defs
      greedy_config_def healthy_env_def example_defs decimal_of_int_def fix_dec_def
      digits.simps prec_def Etop_def Etiny_def Emax_def Emin_def sign_str_def success_result_def)

text \<open>
  C2 as the program has it. Whatever the balance and the percentage are, once their
  product is computed and the order is built, the order is sent, carrying the product
  as its amount: nothing is rejected for its size. For a balance above zero whose
  coefficient has at most 18 digits and a percentage in (0, 1], when the exponents of
  the two sum to at least \<open>Etiny\<close>, which is -1000016, and the exponent of the balance
  plus 18 is at most \<open>Emax\<close>, which is 999999, the amount is above zero and at most the
  balance.
\<close>

theorem sizing_is_unchecked:
  "(get_gmgn_balance cfg w s = (Inr balance, s1) \<and>
    Decimal w (position_size_pct cfg) = Inr pct \<and> mul balance pct = Inr amount \<and>
    build_order cfg data amount = Inr order \<longrightarrow>
      snd (execute_gmgn_order cfg w data s) = s1 @ [order_request cfg order] \<and>
      getitem order ''amount'' = Inr (PStr (str_decimal amount))) \<and>
   (0 < cb \<and> cb < 10 ^ 18 \<and> 0 < cp \<and> dec_val (Dec False cp ep) \<le> 1 \<and>
    Etiny \<le> eb + ep \<and> eb + 18 \<le> Emax \<longrightarrow>
      (\<exists>c e. mul (Dec False cb eb) (Dec False cp ep) = Inr (Dec False c e) \<and>
         0 < dec_val (Dec False c e) \<and> dec_val (Dec False c e) \<le> dec_val (Dec False cb eb)))"
proof (intro conjI impI)
  assume a: "get_gmgn_balance cfg w s = (Inr balance, s1) \<and>
    Decimal w (position_size_pct cfg) = Inr pct \<and> mul balance pct = Inr amount \<and>
    build_order cfg data amount = Inr order"
  then show "snd (execute_gmgn_order cfg w data s) = s1 @ [order_request cfg order]"
    using execute_sent [of cfg w s balance s1 pct amount data order] by simp
  show "getitem order ''amount'' = Inr (PStr (str_decimal amount))"
    using a build_order_amount by blast
next
  assume "0 < cb \<and> cb < 10 ^ 18 \<and> 0 < cp \<and> dec_val (Dec False cp ep) \<le> 1 \<and>
    Etiny \<le> eb + ep \<and> eb + 18 \<le> Emax"
  then show "\<exists>c e. mul (Dec False cb eb) (Dec False cp ep) = Inr (Dec False c e) \<and>
         0 < dec_val (Dec False c e) \<and> dec_val (Dec False c e) \<le> dec_val (Dec False cb eb)"
    using size_within_balance [of cb cp ep eb] by simp
qed

theorem sizing_is_unchecked_witness:
  "snd (execute_gmgn_order example_config healthy_env (example_pair ''0xDEF'') []) =
     [balance_request example_config,
      order_request example_config (example_order ''0xDEF'' ''500.0'')] \<and>
   getitem (example_order ''0xDEF'' ''500.0'') ''amount'' = Inr (PStr ''500.0'') \<and>
   (\<exists>c e. mul (Dec False 1000 0) (Dec False 5 (- 1)) = Inr (Dec False c e) \<and>
      0 < dec_val (Dec False c e) \<and> dec_val (Dec False c e) \<le> dec_val (Dec False 1000 0))"
proof -
  have p: "Decimal healthy_env (position_size_pct example_config) = Inr (Dec False 5 (- 1))"
    by (simp add: healthy_env_def example_defs)
  have s: "str_decimal (Dec False 5000 (- 1)) = ''500.0''"
    by (simp add: digits.simps sign_str_def)
  have 1: "snd (execute_gmgn_order example_config healthy_env (example_pair ''0xDEF'') []) =
     [balance_request example_config,
      order_request example_config (example_order ''0xDEF'' ''500.0'')] \<and>
     getitem (example_order ''0xDEF'' ''500.0'') ''amount'' = Inr (PStr ''500.0'')"
    using sizing_is_unchecked [where cfg = example_config and w = healthy_env and s = "[]"
        and balance = "Dec False 1000 0" and ?s1.0 = "[balance_request example_config]"
        and pct = "Dec False 5 (- 1)" and amount = "Dec False 5000 (- 1)"
        and data = "example_pair ''0xDEF''" and order = "example_order ''0xDEF'' ''500.0''"]
      healthy_balance [of "[]"] healthy_size healthy_order p s
    by simp
  have 2: "\<exists>c e. mul (Dec False 1000 0) (Dec False 5 (- 1)) = Inr (Dec False c e) \<and>
      0 < dec_val (Dec False c e) \<and> dec_val (Dec False c e) \<le> dec_val (Dec False 1000 0)"
    using sizing_is_unchecked [where cb = 1000 and cp = 5 and eb = 0 and ep = "- 1"]
    by (simp add: Etiny_def Emax_def Emin_def prec_def)
  show ?thesis using 1 2 by blast
qed

text \<open>
  C3. The claim: a balance that cannot be read is zero, and the zero leads to a sizing
  rejection with no order sent. The first half holds. For the second, the program has
  no sizing check: when the balance request times out, the order is sent with the
  amount \<^verbatim>\<open>0.0\<close>.
\<close>

theorem zero_balance_order_is_sent:
  "execute_gmgn_order example_config
     (example_env (answer 200 [] (Inr (example_pair ''0xDEF''))) good_audit timed_out created)
     (example_pair ''0xDEF'') [] =
   (Inr (PDict [(''status'', PStr ''success''), (''order'', PDict [(''orderId'', PStr ''42'')])]),
    [Get ''https://api.gmgn.ai/account/balance'' [(''X-API-KEY'', ''secret'')] 5,
     Post ''https://api.gmgn.ai/orders'' [(''X-API-KEY'', ''secret'')]
       (PDict [(''pair'', PStr ''0xDEF''), (''baseToken'', PStr ''0xbase''),
               (''quoteToken'', PStr ''0xquote''), (''amount'', PStr ''0.0''),
               (''price'', PStr ''1.25''), (''side'', PStr ''BUY''), (''leverage'', PInt 1),
               (''stopLoss'', PInt 5), (''takeProfit'', PInt 10)]) 10])"
  by (simp add: execute_gmgn_order_def get_gmgn_balance_def build_order_def io_defs
      example_defs decimal_of_int_def fix_dec_def
      digits.simps prec_def Etop_def Etiny_def Emax_def Emin_def sign_str_def success_result_def)

text \<open>
  C3 as the program has it. When reading the balance fails at any step (the request,
  the decoding of the body, the \<^verbatim>\<open>available\<close> entry, its conversion), the balance
  is exactly \<^verbatim>\<open>Decimal(0)\<close>. With a finite percentage the position size is then a zero,
  and once the order is built it is sent with that zero as its amount, right after the
  balance request.
\<close>

theorem balance_failure_is_zero:
  "(balance_reading cfg w = Inl e \<longrightarrow>
      get_gmgn_balance cfg w s = (Inr (Dec False 0 0), s @ [balance_request cfg])) \<and>
   (balance_reading cfg w = Inl e \<and> Decimal w (position_size_pct cfg) = Inr (Dec t c x) \<and>
    build_order cfg data (Dec t 0 (min (max x Etiny) Emax)) = Inr order \<longrightarrow>
      snd (execute_gmgn_order cfg w data s) =
        s @ [balance_request cfg, order_request cfg order] \<and>
      getitem order ''amount'' = Inr (PStr (str_decimal (Dec t 0 (min (max x Etiny) Emax)))) \<and>
      dec_val (Dec t 0 (min (max x Etiny) Emax)) = 0)"
proof (intro conjI impI)
  assume "balance_reading cfg w = Inl e"
  then show "get_gmgn_balance cfg w s = (Inr (Dec False 0 0), s @ [balance_request cfg])"
    by (simp add: get_gmgn_balance_eq)
next
  assume a: "balance_reading cfg w = Inl e \<and> Decimal w (position_size_pct cfg) = Inr (Dec t c x) \<and>
    build_order cfg data (Dec t 0 (min (max x Etiny) Emax)) = Inr order"
  then have b: "get_gmgn_balance cfg w s = (Inr (Dec False 0 0), s @ [balance_request cfg])"
    by (simp add: get_gmgn_balance_eq)
  have m: "mul (Dec False 0 0) (Dec t c x) = Inr (Dec t 0 (min (max x Etiny) Emax))"
    by (simp add: fix_dec_zero)
  show "snd (execute_gmgn_order cfg w data s) =
        s @ [balance_request cfg, order_request cfg order]"
    using execute_sent [OF b _ m] a by simp
  show "getitem order ''amount'' = Inr (PStr (str_decimal (Dec t 0 (min (max x Etiny) Emax))))"
    using a build_order_amount by blast
  show "dec_val (Dec t 0 (min (max x Etiny) Emax)) = 0"
    by simp
qed

theorem balance_failure_is_zero_witness:
  "get_gmgn_balance example_config
     (example_env (answer 200 [] (Inr (example_pair ''0xDEF''))) good_audit timed_out created) [] =
     (Inr (Dec False 0 0), [balance_request example_config]) \<and>
   snd (execute_gmgn_order example_config
     (example_env (answer 200 [] (Inr (example_pair ''0xDEF''))) good_audit timed_out created)
     (example_pair ''0xDEF'') []) =
     [balance_request example_config,
      order_request example_config (example_order ''0xDEF'' ''0.0'')]"
proof -
  let ?w = "example_env (answer 200 [] (Inr (example_pair ''0xDEF''))) good_audit timed_out created"
  have r: "balance_reading example_config ?w = Inl (Raised ''ConnectTimeout'' ''connection timed out'')"
    by (simp add: balance_reading_def example_defs)
  have p: "Decimal ?w (position_size_pct example_config) = Inr (Dec False 5 (- 1))"
    by (simp add: example_defs)
  have o: "build_order example_config (example_pair ''0xDEF'')
      (Dec False 0 (min (max (- 1) Etiny) Emax)) = Inr (example_order ''0xDEF'' ''0.0'')"
    by (simp add: build_order_def example_defs digits.simps sign_str_def Etiny_def Emax_def
        Emin_def prec_def)
  show ?thesis
    using balance_failure_is_zero [where cfg = example_config and w = ?w and s = "[]"
        and e = "Raised ''ConnectTimeout'' ''connection timed out''" and t = False and c = 5
        and x = "- 1" and data = "example_pair ''0xDEF''"
        and order = "example_order ''0xDEF'' ''0.0''"] r p o
    by simp
qed

end
